theory Spec2Isabelle
  imports Complex_Main "HOL-Library.Sublist" "HOL-Library.Product_Lexorder"
begin

section \<open>Python values\<close>

text \<open>
  A Python \<^verbatim>\<open>str\<close> is a sequence of Unicode code points; \<^verbatim>\<open>len\<close>, \<^verbatim>\<open>in\<close>,
  \<^verbatim>\<open>strip\<close> and the regular expressions of the program all work on code points. A
  string is therefore a list of code points, and the literals of the source that are not
  ASCII are written out by their code points.
\<close>

type_synonym pystr = "nat list"

definition ascii :: "string \<Rightarrow> pystr" where
  "ascii s = map of_char s"

text \<open>
  The values \<^verbatim>\<open>json.loads\<close> can produce. A dict is kept as its list of items; the
  first binding of a key is the one a lookup sees.
\<close>

datatype pyval =
    PNone
  | PBool bool
  | PInt int
  | PFloat real
  | PStr pystr
  | PList "pyval list"
  | PDict "(pystr \<times> pyval) list"

text \<open>
  Exceptions are values. Every constructor stands for a subclass of \<^verbatim>\<open>Exception\<close>, so
  \<^verbatim>\<open>except Exception\<close> catches all of them; \<open>RequestError\<close> is httpx's transport
  error, \<open>HTTPException\<close> is FastAPI's, with its status code and detail, and
  \<open>ResponseValidationError\<close> is what FastAPI raises, after a handler has returned, when
  the returned content does not fit the declared response model.
\<close>

datatype exn =
    ValueError
  | TypeError
  | AttributeError
  | JSONDecodeError
  | RequestError
  | HTTPException int pystr
  | ResponseValidationError
  | OtherException pystr

definition and_then :: "exn + 'a \<Rightarrow> ('a \<Rightarrow> exn + 'b) \<Rightarrow> exn + 'b" where
  "and_then r f = (case r of Inl e \<Rightarrow> Inl e | Inr v \<Rightarrow> f v)"

text \<open>Truth value testing (\<^verbatim>\<open>not x\<close>, \<^verbatim>\<open>if x\<close>, \<^verbatim>\<open>x or y\<close>).\<close>

fun truthy :: "pyval \<Rightarrow> bool" where
  "truthy PNone = False"
| "truthy (PBool b) = b"
| "truthy (PInt i) = (i \<noteq> 0)"
| "truthy (PFloat x) = (x \<noteq> 0)"
| "truthy (PStr s) = (s \<noteq> [])"
| "truthy (PList xs) = (xs \<noteq> [])"
| "truthy (PDict d) = (d \<noteq> [])"

text \<open>\<^verbatim>\<open>sub in s\<close> on two strings: \<open>sub\<close> occurs in \<open>s\<close> as a contiguous substring.\<close>

fun contains :: "pystr \<Rightarrow> pystr \<Rightarrow> bool" where
  "contains sub [] = (sub = [])"
| "contains sub (c # cs) = (prefix sub (c # cs) \<or> contains sub cs)"

text \<open>
  \<^verbatim>\<open>sub in v\<close> for a string \<open>sub\<close> and any value \<open>v\<close>: substring test on a string,
  membership in a list, key membership in a dict, \<^verbatim>\<open>TypeError\<close> on a value that is
  not iterable.
\<close>

fun py_in :: "pystr \<Rightarrow> pyval \<Rightarrow> exn + bool" where
  "py_in sub (PStr s) = Inr (contains sub s)"
| "py_in sub (PList xs) = Inr (PStr sub \<in> set xs)"
| "py_in sub (PDict d) = Inr (sub \<in> set (map fst d))"
| "py_in sub PNone = Inl TypeError"
| "py_in sub (PBool b) = Inl TypeError"
| "py_in sub (PInt i) = Inl TypeError"
| "py_in sub (PFloat x) = Inl TypeError"

fun py_len :: "pyval \<Rightarrow> exn + nat" where
  "py_len (PStr s) = Inr (length s)"
| "py_len (PList xs) = Inr (length xs)"
| "py_len (PDict d) = Inr (length (remdups (map fst d)))"
| "py_len PNone = Inl TypeError"
| "py_len (PBool b) = Inl TypeError"
| "py_len (PInt i) = Inl TypeError"
| "py_len (PFloat x) = Inl TypeError"

text \<open>\<^verbatim>\<open>v.get(key, default)\<close>: only a dict has the method.\<close>

fun py_get :: "pyval \<Rightarrow> pystr \<Rightarrow> pyval \<Rightarrow> exn + pyval" where
  "py_get (PDict d) k dflt = Inr (case map_of d k of None \<Rightarrow> dflt | Some v \<Rightarrow> v)"
| "py_get PNone k dflt = Inl AttributeError"
| "py_get (PBool b) k dflt = Inl AttributeError"
| "py_get (PInt i) k dflt = Inl AttributeError"
| "py_get (PFloat x) k dflt = Inl AttributeError"
| "py_get (PStr s) k dflt = Inl AttributeError"
| "py_get (PList xs) k dflt = Inl AttributeError"

text \<open>Decimal digits of a natural number, and \<^verbatim>\<open>str\<close> of an int.\<close>

fun digits_of_nat :: "nat \<Rightarrow> pystr" where
  "digits_of_nat n =
     (if n < 10 then [48 + n] else digits_of_nat (n div 10) @ [48 + n mod 10])"

declare digits_of_nat.simps [simp del]

definition str_of_int :: "int \<Rightarrow> pystr" where
  "str_of_int i = (if i < 0 then 0x2D # digits_of_nat (nat (- i)) else digits_of_nat (nat i))"

text \<open>
  The interpreter converts between an int and its decimal text only up to
  \<^verbatim>\<open>sys.int_info.default_max_str_digits\<close> digits; beyond, both \<^verbatim>\<open>str\<close> and \<^verbatim>\<open>int\<close>
  raise \<^verbatim>\<open>ValueError\<close>.
\<close>

definition max_str_digits :: nat where
  "max_str_digits = 4300"

text \<open>
  \<^verbatim>\<open>str(v)\<close>, which is also what an f-string field \<^verbatim>\<open>{v}\<close> inserts. The text of a
  float and of a container is the interpreter's \<^verbatim>\<open>repr\<close>, which may raise as well
  and is taken as the parameter \<open>repr\<close>.
\<close>

fun py_str :: "(pyval \<Rightarrow> exn + pystr) \<Rightarrow> pyval \<Rightarrow> exn + pystr" where
  "py_str repr (PStr s) = Inr s"
| "py_str repr PNone = Inr (ascii ''None'')"
| "py_str repr (PBool b) = Inr (if b then ascii ''True'' else ascii ''False'')"
| "py_str repr (PInt i) =
     (if max_str_digits < length (digits_of_nat (nat \<bar>i\<bar>)) then Inl ValueError
      else Inr (str_of_int i))"
| "py_str repr (PFloat x) = repr (PFloat x)"
| "py_str repr (PList xs) = repr (PList xs)"
| "py_str repr (PDict d) = repr (PDict d)"

section \<open>The regular expressions of the image analysis\<close>

text \<open>
  \<^verbatim>\<open>re.search(r"\{[\s\S]*\}", text)\<close>: the match starts at the leftmost \<^verbatim>\<open>{\<close> and,
  the star being greedy over every character, ends at the last \<^verbatim>\<open>}\<close> of the text;
  there is no match when no \<^verbatim>\<open>}\<close> follows the leftmost \<^verbatim>\<open>{\<close>.
\<close>

definition re_search_braces :: "pystr \<Rightarrow> pystr option" where
  "re_search_braces text =
     (let rest = dropWhile (\<lambda>c. c \<noteq> 0x7B) text in
      if 0x7D \<in> set rest
      then Some (rev (dropWhile (\<lambda>c. c \<noteq> 0x7D) (rev rest)))
      else None)"

text \<open>
  \<^verbatim>\<open>re.sub(r"```json|```", "", s)\<close>: scanning from the left, every occurrence of the
  longer token, else of the shorter one, is removed.
\<close>

fun strip_fences :: "pystr \<Rightarrow> pystr" where
  "strip_fences [] = []"
| "strip_fences (c # cs) =
     (if prefix (ascii ''```json'') (c # cs) then strip_fences (drop 6 cs)
      else if prefix (ascii ''```'') (c # cs) then strip_fences (drop 2 cs)
      else c # strip_fences cs)"

text \<open>
  \<^verbatim>\<open>re.sub(r"[^0-9]", "", s)\<close> keeps the ASCII digits. \<^verbatim>\<open>int\<close> is only ever applied
  to the result, a string of ASCII digits: it raises \<^verbatim>\<open>ValueError\<close> on the empty
  string and on a string of more than \<open>max_str_digits\<close> digits, and reads the decimal
  number otherwise (leading zeros allowed).
\<close>

definition is_digit :: "nat \<Rightarrow> bool" where
  "is_digit c = (0x30 \<le> c \<and> c \<le> 0x39)"

definition strip_non_digits :: "pystr \<Rightarrow> pystr" where
  "strip_non_digits s = filter is_digit s"

definition decimal_value :: "pystr \<Rightarrow> nat" where
  "decimal_value ds = foldl (\<lambda>acc c. 10 * acc + (c - 0x30)) 0 ds"

definition py_int :: "pystr \<Rightarrow> exn + int" where
  "py_int s =
     (if s = [] \<or> \<not> list_all is_digit s \<or> max_str_digits < length s then Inl ValueError
      else Inr (int (decimal_value s)))"

section \<open>The AI service\<close>

text \<open>
  The collaborators of the service: the model engine (\<^verbatim>\<open>src.core.model_engine\<close>, not
  part of the sources) and the library functions whose result the handlers only pass
  on. Each may raise; \<open>Inl\<close> is the exception.
\<close>

record env =
  generate_with_image :: "pystr \<Rightarrow> pystr \<Rightarrow> exn + pystr"
  generate_embedding :: "pystr \<Rightarrow> exn + real list"
  json_loads :: "pystr \<Rightarrow> exn + pyval"
  py_repr :: "pyval \<Rightarrow> exn + pystr"
  b64encode :: "nat list \<Rightarrow> pystr"

text \<open>The uploaded file: its name, which may be absent, and what reading it gives.\<close>

record upload_file =
  filename :: "pystr option"
  read :: "exn + nat list"

definition VISION_ANALYSIS_PROMPT :: pystr where
  "VISION_ANALYSIS_PROMPT = [
    0xA, 0x3C, 0x7C, 0x73, 0x79, 0x73, 0x74, 0x65, 0x6D, 0x7C, 0x3E, 0xA, 0xB2F9, 0xC2E0,
    0xC740, 0x20, 0xD55C, 0xAD6D, 0xC758, 0x20, 0xC1FC, 0xD551, 0xBAB0, 0x20, 0xC0C1,
    0xD488, 0x20, 0xBD84, 0xC11D, 0x20, 0x41, 0x49, 0xC785, 0xB2C8, 0xB2E4, 0x2E, 0xA,
    0xC785, 0xB825, 0xB41C, 0x20, 0xC774, 0xBBF8, 0xC9C0, 0xB97C, 0x20, 0xC2DC, 0xAC01,
    0xC801, 0xC73C, 0xB85C, 0x20, 0xBD84, 0xC11D, 0xD558, 0xC5EC, 0x20, 0x4A, 0x53, 0x4F,
    0x4E, 0x20, 0xB370, 0xC774, 0xD130, 0xB85C, 0x20, 0xBC18, 0xD658, 0xD558, 0xB294, 0x20,
    0xAC83, 0xC774, 0x20, 0xC720, 0xC77C, 0xD55C, 0x20, 0xC784, 0xBB34, 0xC785, 0xB2C8,
    0xB2E4, 0x2E, 0xA, 0xC7A1, 0xB2F4, 0x2C, 0x20, 0xC778, 0xC0AC, 0x2C, 0x20, 0xB9C8,
    0xD06C, 0xB2E4, 0xC6B4, 0x28, 0x60, 0x60, 0x60, 0x6A, 0x73, 0x6F, 0x6E, 0x29, 0xC744,
    0x20, 0xC808, 0xB300, 0x20, 0xD3EC, 0xD568, 0xD558, 0xC9C0, 0x20, 0xB9C8, 0xC2ED,
    0xC2DC, 0xC624, 0x2E, 0x20, 0xC624, 0xC9C1, 0x20, 0xC21C, 0xC218, 0x20, 0x4A, 0x53,
    0x4F, 0x4E, 0x20, 0xBB38, 0xC790, 0xC5F4, 0xB9CC, 0x20, 0xCD9C, 0xB825, 0xD558, 0xC2ED,
    0xC2DC, 0xC624, 0x2E, 0xA, 0xA, 0x5B, 0xBD84, 0xC11D, 0x20, 0xAC00, 0xC774, 0xB4DC,
    0x5D, 0xA, 0x31, 0x2E, 0x20, 0xC0C1, 0xD488, 0xBA85, 0x3A, 0x20, 0xC774, 0xBBF8,
    0xC9C0, 0xC758, 0x20, 0xC2DC, 0xAC01, 0xC801, 0x20, 0xD2B9, 0xC9D5, 0xC744, 0x20,
    0xBC18, 0xC601, 0xD55C, 0x20, 0xB9E4, 0xB825, 0xC801, 0xC778, 0x20, 0xD55C, 0xAE00,
    0x20, 0xC0C1, 0xD488, 0xBA85, 0x2E, 0xA, 0x32, 0x2E, 0x20, 0xCE74, 0xD14C, 0xACE0,
    0xB9AC, 0x3A, 0x20, 0x46, 0x61, 0x73, 0x68, 0x69, 0x6F, 0x6E, 0x2C, 0x20, 0x46, 0x6F,
    0x6F, 0x64, 0x2C, 0x20, 0x45, 0x6C, 0x65, 0x63, 0x74, 0x72, 0x6F, 0x6E, 0x69, 0x63,
    0x73, 0x2C, 0x20, 0x41, 0x75, 0x74, 0x6F, 0x6D, 0x6F, 0x62, 0x69, 0x6C, 0x65, 0x2C,
    0x20, 0x45, 0x74, 0x63, 0x20, 0xC911, 0x20, 0xD558, 0xB098, 0x2E, 0xA, 0x33, 0x2E,
    0x20, 0xC124, 0xBA85, 0x3A, 0x20, 0xACE0, 0xAC1D, 0xC744, 0x20, 0xC124, 0xB4DD, 0xD558,
    0xB294, 0x20, 0x34, 0x7E, 0x38, 0xBB38, 0xC7A5, 0xC758, 0x20, 0xD55C, 0xAE00, 0x20,
    0xC124, 0xBA85, 0x20, 0x28, 0xACC4, 0xC808, 0xAC10, 0x2C, 0x20, 0xC18C, 0xC7AC, 0x2C,
    0x20, 0xB9DB, 0x2C, 0x20, 0xBD84, 0xC704, 0xAE30, 0x2C, 0x20, 0xCD94, 0xCC9C, 0x20,
    0xC2A4, 0xD0C0, 0xC77C, 0xB9C1, 0x20, 0xD3EC, 0xD568, 0x29, 0x2E, 0xA, 0x34, 0x2E,
    0x20, 0xAC00, 0xACA9, 0x3A, 0x20, 0xC0C1, 0xD488, 0xC5D0, 0x20, 0xC5B4, 0xC6B8, 0xB9AC,
    0xB294, 0x20, 0xD604, 0xC2E4, 0xC801, 0xC778, 0x20, 0xC6D0, 0xD654, 0x28, 0x4B, 0x52,
    0x57, 0x29, 0x20, 0xAC00, 0xACA9, 0x20, 0x28, 0xC22B, 0xC790, 0xB9CC, 0x29, 0x2E, 0xA,
    0xA, 0x5B, 0xCD9C, 0xB825, 0x20, 0xC608, 0xC2DC, 0x5D, 0xA, 0x7B, 0x22, 0x6E, 0x61,
    0x6D, 0x65, 0x22, 0x3A, 0x20, 0x22, 0xC0C1, 0xD488, 0xBA85, 0x22, 0x2C, 0x20, 0x22,
    0x63, 0x61, 0x74, 0x65, 0x67, 0x6F, 0x72, 0x79, 0x22, 0x3A, 0x20, 0x22, 0xCE74, 0xD14C,
    0xACE0, 0xB9AC, 0x22, 0x2C, 0x20, 0x22, 0x64, 0x65, 0x73, 0x63, 0x72, 0x69, 0x70, 0x74,
    0x69, 0x6F, 0x6E, 0x22, 0x3A, 0x20, 0x22, 0xC124, 0xBA85, 0x22, 0x2C, 0x20, 0x22, 0x70,
    0x72, 0x69, 0x63, 0x65, 0x22, 0x3A, 0x20, 0x31, 0x30, 0x30, 0x30, 0x30, 0x7D, 0xA,
    0x3C, 0x7C, 0x75, 0x73, 0x65, 0x72, 0x7C, 0x3E, 0xA, 0xC774, 0x20, 0xC774, 0xBBF8,
    0xC9C0, 0xB97C, 0x20, 0xBD84, 0xC11D, 0xD574, 0xC11C, 0x20, 0x4A, 0x53, 0x4F, 0x4E,
    0xC744, 0x20, 0xC0DD, 0xC131, 0xD574, 0x2E, 0xA, 0x3C, 0x7C, 0x61, 0x73, 0x73, 0x69,
    0x73, 0x74, 0x61, 0x6E, 0x74, 0x7C, 0x3E, 0xA]"

definition zero_vector :: "real list" where
  "zero_vector = replicate 768 0"

definition vector_value :: "real list \<Rightarrow> pyval" where
  "vector_value v = PList (map PFloat v)"

subsection \<open>\<^verbatim>\<open>embed_text\<close>\<close>

definition embed_text :: "env \<Rightarrow> pystr \<Rightarrow> exn + pyval" where
  "embed_text e text =
     (case generate_embedding e text of
        Inr vector \<Rightarrow> Inr (PDict [(ascii ''vector'', vector_value vector)])
      | Inl _ \<Rightarrow> Inr (PDict [(ascii ''vector'', vector_value zero_vector)]))"

subsection \<open>\<^verbatim>\<open>analyze_image\<close>\<close>

definition refusal :: "pystr \<Rightarrow> bool" where
  "refusal generated_text =
     (contains (ascii ''cannot assist'') generated_text \<or>
      contains (ascii ''I cannot'') generated_text)"

text \<open>The text handed to the decoder: the brace block without fences, else the whole text.\<close>

definition json_candidate :: "pystr \<Rightarrow> pystr" where
  "json_candidate generated_text =
     (case re_search_braces generated_text of
        Some json_match \<Rightarrow> strip_fences json_match
      | None \<Rightarrow> generated_text)"

text \<open>The parsing block: a decoding failure leaves the empty dict.\<close>

definition parse_product_data :: "env \<Rightarrow> pystr \<Rightarrow> pyval" where
  "parse_product_data e generated_text =
     (case json_loads e (json_candidate generated_text) of
        Inr product_data \<Rightarrow> product_data
      | Inl _ \<Rightarrow> PDict [])"

definition placeholder_token :: pystr where
  "placeholder_token = [0xC0C1, 0xD488, 0xBA85]"

text \<open>\<^verbatim>\<open>filename.split('.')[0]\<close>; there is no such method on \<^verbatim>\<open>None\<close>.\<close>

definition base_name :: "pystr option \<Rightarrow> exn + pystr" where
  "base_name fname =
     (case fname of
        None \<Rightarrow> Inl AttributeError
      | Some f \<Rightarrow> Inr (takeWhile (\<lambda>c. c \<noteq> 0x2E) f))"

definition name_fallback :: "pystr \<Rightarrow> pystr" where
  "name_fallback base =
     [0x41, 0x49, 0x20, 0xCD94, 0xCC9C, 0x20, 0xC0C1, 0xD488, 0x20, 0x28] @ base @ [0x29]"

text \<open>
  The condition on the name, \<^verbatim>\<open>or\<close> evaluated from the left and stopping at the first
  true operand.
\<close>

definition name_rejected :: "pyval \<Rightarrow> exn + bool" where
  "name_rejected final_name =
     (if \<not> truthy final_name then Inr True
      else and_then (py_in placeholder_token final_name) (\<lambda>echo.
        if echo then Inr True else py_in (ascii ''JSON'') final_name))"

definition validate_name :: "pystr option \<Rightarrow> pyval \<Rightarrow> exn + pyval" where
  "validate_name fname product_data =
     and_then (py_get product_data (ascii ''name'') PNone) (\<lambda>final_name.
     and_then (name_rejected final_name) (\<lambda>rejected.
       if rejected
       then and_then (base_name fname) (\<lambda>base. Inr (PStr (name_fallback base)))
       else Inr final_name))"

definition description_fallback :: pystr where
  "description_fallback =
     [0x41, 0x49, 0xAC00, 0x20, 0xC774, 0xBBF8, 0xC9C0, 0xB97C, 0x20, 0xBD84, 0xC11D, 0xD558,
      0xC5EC, 0x20, 0xCD94, 0xCC9C, 0xD558, 0xB294, 0x20, 0xC0C1, 0xD488, 0xC785, 0xB2C8,
      0xB2E4, 0x2E, 0x20, 0xB9E4, 0xB825, 0xC801, 0xC778, 0x20, 0xC2A4, 0xD0C0, 0xC77C,
      0xACFC, 0x20, 0xB6F0, 0xC5B4, 0xB09C, 0x20, 0xD488, 0xC9C8, 0xC744, 0x20, 0xC790,
      0xB791, 0xD569, 0xB2C8, 0xB2E4, 0x2E]"

definition validate_description :: "pyval \<Rightarrow> exn + pyval" where
  "validate_description product_data =
     and_then (py_get product_data (ascii ''description'') PNone) (\<lambda>final_desc.
       if \<not> truthy final_desc then Inr (PStr description_fallback)
       else and_then (py_len final_desc) (\<lambda>n.
         if n < 10 then Inr (PStr description_fallback) else Inr final_desc))"

definition validate_category :: "pyval \<Rightarrow> exn + pyval" where
  "validate_category product_data =
     py_get product_data (ascii ''category'') (PStr (ascii ''Uncategorized''))"

text \<open>
  The price block. Its \<^verbatim>\<open>try\<close> body stringifies the value, strips the non-digits
  and converts; its own bare \<^verbatim>\<open>except\<close> turns whatever is raised inside into 0.
\<close>

definition price_body :: "env \<Rightarrow> pyval \<Rightarrow> exn + int" where
  "price_body e product_data =
     and_then (py_get product_data (ascii ''price'') (PInt 0)) (\<lambda>v.
     and_then (py_str (py_repr e) v) (\<lambda>raw_price.
       py_int (strip_non_digits raw_price)))"

definition validate_price :: "env \<Rightarrow> pyval \<Rightarrow> exn + int" where
  "validate_price e product_data =
     (case price_body e product_data of Inr price \<Rightarrow> Inr price | Inl _ \<Rightarrow> Inr 0)"

definition response :: "pyval \<Rightarrow> pyval \<Rightarrow> pyval \<Rightarrow> int \<Rightarrow> real list \<Rightarrow> pyval" where
  "response n c d p v =
     PDict [(ascii ''name'', n), (ascii ''category'', c), (ascii ''description'', d),
            (ascii ''price'', PInt p), (ascii ''vector'', vector_value v)]"

text \<open>Validation of the parsed record and the embedding of its text.\<close>

definition normalize :: "env \<Rightarrow> pystr option \<Rightarrow> pyval \<Rightarrow> exn + pyval" where
  "normalize e fname product_data =
     and_then (validate_name fname product_data) (\<lambda>final_name.
     and_then (validate_description product_data) (\<lambda>final_desc.
     and_then (validate_category product_data) (\<lambda>final_cat.
     and_then (validate_price e product_data) (\<lambda>price.
     and_then (py_str (py_repr e) final_name) (\<lambda>name_text.
     and_then (py_str (py_repr e) final_cat) (\<lambda>cat_text.
     and_then (py_str (py_repr e) final_desc) (\<lambda>desc_text.
     let meta_text = name_text @ [0x20] @ cat_text @ [0x20] @ desc_text
     in and_then (generate_embedding e meta_text) (\<lambda>vector.
          Inr (response final_name final_cat final_desc price vector)))))))))"

text \<open>The body of the \<^verbatim>\<open>try\<close> statement.\<close>

definition analyze_body :: "env \<Rightarrow> upload_file \<Rightarrow> exn + pyval" where
  "analyze_body e file =
     and_then (read file) (\<lambda>contents.
     let image_b64 = b64encode e contents in
     and_then (generate_with_image e VISION_ANALYSIS_PROMPT image_b64) (\<lambda>generated_text.
       if refusal generated_text then Inl ValueError
       else normalize e (filename file) (parse_product_data e generated_text)))"

text \<open>The handler of \<^verbatim>\<open>except Exception\<close>.\<close>

definition error_name :: "pystr option \<Rightarrow> pystr" where
  "error_name fname =
     [0xB4F1, 0xB85D, 0xB41C, 0x20, 0xC0C1, 0xD488, 0x20, 0x28]
     @ (case fname of None \<Rightarrow> ascii ''None'' | Some f \<Rightarrow> f) @ [0x29]"

definition error_description :: pystr where
  "error_description =
     [0xC774, 0xBBF8, 0xC9C0, 0x20, 0xBD84, 0xC11D, 0xC5D0, 0x20, 0xC2E4, 0xD328, 0xD588,
      0xC2B5, 0xB2C8, 0xB2E4, 0x2E, 0x20, 0xAD00, 0xB9AC, 0xC790, 0x20, 0xBAA8, 0xB4DC,
      0xC5D0, 0xC11C, 0x20, 0xC815, 0xBCF4, 0xB97C, 0x20, 0xC218, 0xC815, 0xD574, 0xC8FC,
      0xC138, 0xC694, 0x2E]"

definition error_response :: "pystr option \<Rightarrow> pyval" where
  "error_response fname =
     response (PStr (error_name fname)) (PStr (ascii ''Etc'')) (PStr error_description)
       0 zero_vector"

text \<open>The handler function: the \<^verbatim>\<open>try\<close> statement with its \<^verbatim>\<open>except\<close> branch.\<close>

definition analyze_image_handler :: "env \<Rightarrow> upload_file \<Rightarrow> exn + pyval" where
  "analyze_image_handler e file =
     (case analyze_body e file of
        Inr r \<Rightarrow> Inr r
      | Inl _ \<Rightarrow> Inr (error_response (filename file)))"

text \<open>
  The response model that the route declares, \<^verbatim>\<open>response_model=ImageAnalysisResponse\<close>:
  \<^verbatim>\<open>name\<close>, \<^verbatim>\<open>category\<close> and \<^verbatim>\<open>description\<close> are of type \<^verbatim>\<open>str\<close>, \<^verbatim>\<open>price\<close> is an
  \<^verbatim>\<open>int\<close> and \<^verbatim>\<open>vector\<close> a list of \<^verbatim>\<open>float\<close>. A \<^verbatim>\<open>str\<close> field admits a string and
  nothing else: a null, a list or a dict is refused by every version of the validation
  library, a number by the version the repository is written for. A \<^verbatim>\<open>float\<close> admits a
  float or an int.
\<close>

fun is_str :: "pyval \<Rightarrow> bool" where
  "is_str (PStr s) = True"
| "is_str v = False"

fun is_int :: "pyval \<Rightarrow> bool" where
  "is_int (PInt i) = True"
| "is_int v = False"

fun is_float :: "pyval \<Rightarrow> bool" where
  "is_float (PFloat x) = True"
| "is_float (PInt i) = True"
| "is_float v = False"

fun is_float_list :: "pyval \<Rightarrow> bool" where
  "is_float_list (PList xs) = list_all is_float xs"
| "is_float_list v = False"

definition field_fits :: "(pystr \<times> pyval) list \<Rightarrow> pystr \<Rightarrow> (pyval \<Rightarrow> bool) \<Rightarrow> bool" where
  "field_fits d k fits = (case map_of d k of Some v \<Rightarrow> fits v | None \<Rightarrow> False)"

fun ImageAnalysisResponse :: "pyval \<Rightarrow> bool" where
  "ImageAnalysisResponse (PDict d) =
     (field_fits d (ascii ''name'') is_str \<and>
      field_fits d (ascii ''category'') is_str \<and>
      field_fits d (ascii ''description'') is_str \<and>
      field_fits d (ascii ''price'') is_int \<and>
      field_fits d (ascii ''vector'') is_float_list)"
| "ImageAnalysisResponse v = False"

text \<open>
  The endpoint: the framework calls the handler and validates what it returns against
  the response model; content that does not fit is not sent, the request fails with
  \<^verbatim>\<open>ResponseValidationError\<close> (status 500).
\<close>

definition analyze_image :: "env \<Rightarrow> upload_file \<Rightarrow> exn + pyval" where
  "analyze_image e file =
     and_then (analyze_image_handler e file) (\<lambda>content.
       if ImageAnalysisResponse content then Inr content
       else Inl ResponseValidationError)"

section \<open>The catalog and vector retrieval\<close>

text \<open>
  A row of the product table, with the attributes the search reads. The model class
  (\<^verbatim>\<open>src.models.product\<close>) is not part of the sources; a nullable column is an
  \<open>option\<close>.
\<close>

record product =
  product_id :: int
  name :: "pystr option"
  description :: "pystr option"
  price :: "int option"
  stock_quantity :: "int option"
  category :: "pystr option"
  image_url :: "pystr option"
  embedding :: "real list option"
  is_active :: bool
  created_at :: int
  updated_at :: int
  deleted_at :: "int option"

text \<open>
  The database: whether the storage can be reached, the rows of the table, the
  dimension of the embedding column, and the storage engine's distance operator
  \<^verbatim>\<open>embedding.l2_distance(query_vector)\<close>, computed by the engine on its own number
  format and therefore a parameter.
\<close>

record database =
  available :: bool
  rows :: "product list"
  dimension :: nat
  l2_distance :: "real list \<Rightarrow> real list \<Rightarrow> real"

text \<open>
  The statement \<^verbatim>\<open>search_by_vector\<close> builds call by call: a column expression to
  order by, the criteria of the WHERE clause in the order the \<^verbatim>\<open>filter\<close> calls add
  them, and the row limit.
\<close>

datatype column_expr = L2Distance "real list"

datatype criterion =
    IsActive
  | DeletedAtIsNull
  | EmbeddingIsNotNull
  | LessThan column_expr real
  | PriceGe int
  | PriceLe int
  | IdNotIn "int list"
  | CategoryNotIn "pystr list"

record statement =
  order_by_clause :: "column_expr option"
  where_criteria :: "criterion list"
  limit_clause :: "int option"

definition select_product :: statement where
  "select_product = \<lparr>order_by_clause = None, where_criteria = [], limit_clause = None\<rparr>"

definition order_by :: "statement \<Rightarrow> column_expr \<Rightarrow> statement" where
  "order_by stmt col = stmt\<lparr>order_by_clause := Some col\<rparr>"

definition filter_by :: "statement \<Rightarrow> criterion \<Rightarrow> statement" where
  "filter_by stmt c = stmt\<lparr>where_criteria := where_criteria stmt @ [c]\<rparr>"

definition limit_to :: "statement \<Rightarrow> int \<Rightarrow> statement" where
  "limit_to stmt n = stmt\<lparr>limit_clause := Some n\<rparr>"

definition search_statement ::
  "real list \<Rightarrow> int \<Rightarrow> int option \<Rightarrow> int option \<Rightarrow> int list option \<Rightarrow>
   pystr list option \<Rightarrow> real \<Rightarrow> statement" where
  "search_statement query_vector limit min_price max_price exclude_id exclude_category threshold =
     (let distance_col = L2Distance query_vector;
          stmt = order_by select_product distance_col;
          stmt = filter_by stmt IsActive;
          stmt = filter_by stmt DeletedAtIsNull;
          stmt = filter_by stmt EmbeddingIsNotNull;
          stmt = filter_by stmt (LessThan distance_col threshold);
          stmt = (case min_price of Some m \<Rightarrow> filter_by stmt (PriceGe m) | None \<Rightarrow> stmt);
          stmt = (case max_price of Some m \<Rightarrow> filter_by stmt (PriceLe m) | None \<Rightarrow> stmt);
          stmt = (case exclude_id of
                    Some ids \<Rightarrow> if ids \<noteq> [] then filter_by stmt (IdNotIn ids) else stmt
                  | None \<Rightarrow> stmt);
          stmt = (case exclude_category of
                    Some cs \<Rightarrow> if cs \<noteq> [] then filter_by stmt (CategoryNotIn cs) else stmt
                  | None \<Rightarrow> stmt)
      in limit_to stmt limit)"

text \<open>
  What the engine does with a statement. Executing raises when the storage cannot be
  reached, when a query vector in the statement has not the dimension of the embedding
  column, and when the limit is negative or does not fit the engine's 64-bit integer.
  Otherwise: a column expression over a NULL embedding is NULL (\<open>None\<close>); a criterion is
  true, false or NULL, and a row is selected when every criterion is true. Rows are
  ordered ascending by the column expression, NULLs last, and the limit cuts the
  ordered rows. The order of rows at equal distance is the engine's choice; here they
  keep their table order.
\<close>

fun column_fits :: "database \<Rightarrow> column_expr \<Rightarrow> bool" where
  "column_fits db (L2Distance query_vector) = (length query_vector = dimension db)"

fun criterion_fits :: "database \<Rightarrow> criterion \<Rightarrow> bool" where
  "criterion_fits db (LessThan col bound) = column_fits db col"
| "criterion_fits db c = True"

definition statement_fits :: "database \<Rightarrow> statement \<Rightarrow> bool" where
  "statement_fits db stmt =
     ((case order_by_clause stmt of None \<Rightarrow> True | Some col \<Rightarrow> column_fits db col) \<and>
      list_all (criterion_fits db) (where_criteria stmt))"

fun column_value :: "database \<Rightarrow> column_expr \<Rightarrow> product \<Rightarrow> real option" where
  "column_value db (L2Distance query_vector) p =
     map_option (\<lambda>e. l2_distance db e query_vector) (embedding p)"

fun holds :: "database \<Rightarrow> criterion \<Rightarrow> product \<Rightarrow> bool option" where
  "holds db IsActive p = Some (is_active p)"
| "holds db DeletedAtIsNull p = Some (deleted_at p = None)"
| "holds db EmbeddingIsNotNull p = Some (embedding p \<noteq> None)"
| "holds db (LessThan col bound) p = map_option (\<lambda>d. d < bound) (column_value db col p)"
| "holds db (PriceGe m) p = map_option (\<lambda>x. m \<le> x) (price p)"
| "holds db (PriceLe m) p = map_option (\<lambda>x. x \<le> m) (price p)"
| "holds db (IdNotIn ids) p = Some (product_id p \<notin> set ids)"
| "holds db (CategoryNotIn cs) p = map_option (\<lambda>c. c \<notin> set cs) (category p)"

definition selected :: "database \<Rightarrow> criterion list \<Rightarrow> product \<Rightarrow> bool" where
  "selected db cs p = list_all (\<lambda>c. holds db c p = Some True) cs"

definition sort_position :: "database \<Rightarrow> column_expr \<Rightarrow> product \<Rightarrow> bool \<times> real" where
  "sort_position db col p =
     (case column_value db col p of None \<Rightarrow> (True, 0) | Some d \<Rightarrow> (False, d))"

definition execute :: "database \<Rightarrow> statement \<Rightarrow> exn + product list" where
  "execute db stmt =
     (if \<not> available db then Inl (OtherException (ascii ''connection refused''))
      else if \<not> statement_fits db stmt
      then Inl (OtherException (ascii ''different vector dimensions''))
      else
        let matching = filter (selected db (where_criteria stmt)) (rows db);
            ordered = (case order_by_clause stmt of
                         None \<Rightarrow> matching
                       | Some col \<Rightarrow> sort_key (sort_position db col) matching)
        in case limit_clause stmt of
             None \<Rightarrow> Inr ordered
           | Some n \<Rightarrow>
               if n < 0 then Inl (OtherException (ascii ''LIMIT must not be negative''))
               else if 2 ^ 63 \<le> n then Inl (OtherException (ascii ''value out of range''))
               else Inr (take (nat n) ordered))"

definition search_by_vector ::
  "database \<Rightarrow> real list \<Rightarrow> int \<Rightarrow> int option \<Rightarrow> int option \<Rightarrow> int list option \<Rightarrow>
   pystr list option \<Rightarrow> real \<Rightarrow> exn + product list" where
  "search_by_vector db query_vector limit min_price max_price exclude_id exclude_category threshold =
     execute db
       (search_statement query_vector limit min_price max_price exclude_id exclude_category
          threshold)"

text \<open>The eligibility of a row for retrieval, and its distance to a query vector.\<close>

definition eligible :: "product \<Rightarrow> bool" where
  "eligible p = (deleted_at p = None \<and> is_active p \<and> embedding p \<noteq> None)"

definition distance :: "database \<Rightarrow> real list \<Rightarrow> product \<Rightarrow> real option" where
  "distance db query_vector p = column_value db (L2Distance query_vector) p"

section \<open>The search endpoint\<close>

subsection \<open>Sanitizing the retrieved rows\<close>

text \<open>
  \<^verbatim>\<open>str.strip()\<close> removes the leading and trailing characters for which
  \<^verbatim>\<open>str.isspace\<close> holds.
\<close>

definition is_space :: "nat \<Rightarrow> bool" where
  "is_space c =
     ((0x09 \<le> c \<and> c \<le> 0x0D) \<or> (0x1C \<le> c \<and> c \<le> 0x20) \<or> c = 0x85 \<or> c = 0xA0 \<or>
      c = 0x1680 \<or> (0x2000 \<le> c \<and> c \<le> 0x200A) \<or> c = 0x2028 \<or> c = 0x2029 \<or>
      c = 0x202F \<or> c = 0x205F \<or> c = 0x3000)"

definition strip :: "pystr \<Rightarrow> pystr" where
  "strip s = rev (dropWhile is_space (rev (dropWhile is_space s)))"

definition name_placeholder :: pystr where
  "name_placeholder = [0xC774, 0xB984, 0x20, 0xBBF8, 0xC815, 0x20, 0xC0C1, 0xD488]"

definition clean_name :: "pystr option \<Rightarrow> pystr" where
  "clean_name n =
     (case n of
        None \<Rightarrow> name_placeholder
      | Some s \<Rightarrow> if s = [] \<or> length (strip s) < 2 then name_placeholder else s)"

text \<open>
  The dict handed to \<^verbatim>\<open>ProductResponse.model_validate\<close>. The schema class
  (\<^verbatim>\<open>src.schemas.product\<close>) is not part of the sources: whether it accepts a dict is
  the parameter \<open>accepts\<close> of the sanitizer, a rejection being the \<^verbatim>\<open>ValidationError\<close>
  the loop catches, and an accepted dict is the response item.
\<close>

record p_dict =
  resp_id :: int
  resp_name :: pystr
  resp_description :: pystr
  resp_price :: int
  resp_stock_quantity :: int
  resp_category :: pystr
  resp_image_url :: "pystr option"
  resp_embedding :: "real list option"
  resp_is_active :: bool
  resp_created_at :: int
  resp_updated_at :: int

definition to_p_dict :: "product \<Rightarrow> p_dict" where
  "to_p_dict p =
     \<lparr>resp_id = product_id p,
      resp_name = clean_name (name p),
      resp_description = (case description p of None \<Rightarrow> [] | Some d \<Rightarrow> d),
      resp_price = (case price p of None \<Rightarrow> 0 | Some x \<Rightarrow> x),
      resp_stock_quantity = (case stock_quantity p of None \<Rightarrow> 0 | Some x \<Rightarrow> x),
      resp_category =
        (case category p of None \<Rightarrow> ascii ''Etc'' | Some c \<Rightarrow> if c = [] then ascii ''Etc'' else c),
      resp_image_url = image_url p,
      resp_embedding = embedding p,
      resp_is_active = is_active p,
      resp_created_at = created_at p,
      resp_updated_at = updated_at p\<rparr>"

fun sanitize :: "(p_dict \<Rightarrow> bool) \<Rightarrow> product list \<Rightarrow> p_dict list" where
  "sanitize accepts [] = []"
| "sanitize accepts (p # results) =
     (if accepts (to_p_dict p) then to_p_dict p # sanitize accepts results
      else sanitize accepts results)"

subsection \<open>\<^verbatim>\<open>ai_search\<close>\<close>

text \<open>
  The collaborators of the endpoint: the configured base URL of the AI service, the
  HTTP client's \<^verbatim>\<open>post\<close> (URL and JSON payload), the retrieval call
  \<^verbatim>\<open>crud_product.search_by_vector(db, query_vector, limit, threshold)\<close> on the request's
  database session, the response schema and the base64 encoder.
\<close>

record http_response =
  status_code :: int
  json :: "exn + pyval"

record backend =
  AI_SERVICE_API_URL :: pystr
  post :: "pystr \<Rightarrow> pyval \<Rightarrow> exn + http_response"
  search :: "pyval \<Rightarrow> int \<Rightarrow> real \<Rightarrow> exn + product list"
  model_validate :: "p_dict \<Rightarrow> bool"
  encode_b64 :: "nat list \<Rightarrow> pystr"

datatype field_value = Value pyval | Products "p_dict list"

definition default_reason :: pystr where
  "default_reason =
     [0x41, 0x49, 0x20, 0xAC80, 0xC0C9, 0x20, 0xACB0, 0xACFC, 0xC785, 0xB2C8, 0xB2E4, 0x2E]"

definition detail_image :: pystr where
  "detail_image =
     [0xC774, 0xBBF8, 0xC9C0, 0x20, 0xD30C, 0xC77C, 0xC744, 0x20, 0xC77D, 0xC744, 0x20, 0xC218,
      0x20, 0xC5C6, 0xC2B5, 0xB2C8, 0xB2E4, 0x2E]"

definition detail_ai_error :: pystr where
  "detail_ai_error =
     [0x41, 0x49, 0x20, 0xBD84, 0xC11D, 0x20, 0xC11C, 0xBE44, 0xC2A4, 0x20, 0xC624, 0xB958]"

definition detail_ai_connection :: pystr where
  "detail_ai_connection =
     [0x41, 0x49, 0x20, 0xC11C, 0xBE44, 0xC2A4, 0x20, 0xC5F0, 0xACB0, 0x20, 0xC2E4, 0xD328]"

definition detail_empty_vector :: pystr where
  "detail_empty_vector =
     [0x41, 0x49, 0x20, 0xBCA1, 0xD130, 0x20, 0xC0DD, 0xC131, 0x20, 0xC2E4, 0xD328, 0x20, 0x28,
      0x45, 0x6D, 0x70, 0x74, 0x79, 0x20, 0x56, 0x65, 0x63, 0x74, 0x6F, 0x72, 0x29]"

definition detail_database :: pystr where
  "detail_database =
     [0xB370, 0xC774, 0xD130, 0xBCA0, 0xC774, 0xC2A4, 0x20, 0xBCA1, 0xD130, 0x20, 0xAC80, 0xC0C9,
      0x20, 0xC624, 0xB958]"

text \<open>Step 1: the optional image, base64 encoded.\<close>

definition read_image :: "backend \<Rightarrow> upload_file option \<Rightarrow> exn + pyval" where
  "read_image b image_file =
     (case image_file of
        None \<Rightarrow> Inr PNone
      | Some f \<Rightarrow>
          (case read f of
             Inr content \<Rightarrow> Inr (PStr (encode_b64 b content))
           | Inl _ \<Rightarrow> Inl (HTTPException 400 detail_image)))"

text \<open>Step 2A: the routing path; every failure leaves the default.\<close>

definition determine_path :: "backend \<Rightarrow> pystr \<Rightarrow> pyval" where
  "determine_path b query =
     (case and_then
             (post b (AI_SERVICE_API_URL b @ ascii ''/determine-path'')
                (PDict [(ascii ''query'', PStr query)]))
             (\<lambda>path_response.
                if status_code path_response = 200
                then and_then (json path_response) (\<lambda>body.
                       py_get body (ascii ''path'') (PStr (ascii ''INTERNAL'')))
                else Inr (PStr (ascii ''INTERNAL''))) of
        Inr search_path \<Rightarrow> search_path
      | Inl _ \<Rightarrow> PStr (ascii ''INTERNAL''))"

text \<open>
  Step 2B: the AI call. Only a transport error is handled, as status 503; every other
  exception of the block leaves the function as it is.
\<close>

definition process_query :: "backend \<Rightarrow> pystr \<Rightarrow> pyval \<Rightarrow> pyval \<Rightarrow> exn + pyval \<times> pyval" where
  "process_query b query image_b64 search_path =
     (let ai_endpoint = (if search_path = PStr (ascii ''EXTERNAL'')
                         then ascii ''/process-external'' else ascii ''/process-internal'');
          ai_payload = PDict [(ascii ''query'', PStr query), (ascii ''image_b64'', image_b64)]
      in case and_then (post b (AI_SERVICE_API_URL b @ ai_endpoint) ai_payload)
                (\<lambda>ai_data_response.
                   if status_code ai_data_response \<noteq> 200
                   then Inl (HTTPException 502 detail_ai_error)
                   else and_then (json ai_data_response) (\<lambda>ai_data.
                        and_then (py_get ai_data (ascii ''vector'') (PList [])) (\<lambda>vector.
                        and_then (py_get ai_data (ascii ''reason'') (PStr default_reason))
                          (\<lambda>reason. Inr (vector, reason))))) of
           Inl RequestError \<Rightarrow> Inl (HTTPException 503 detail_ai_connection)
         | Inl e \<Rightarrow> Inl e
         | Inr r \<Rightarrow> Inr r)"

definition ai_search ::
  "backend \<Rightarrow> pystr \<Rightarrow> upload_file option \<Rightarrow> int \<Rightarrow> exn + (pystr \<times> field_value) list" where
  "ai_search b query image_file limit =
     and_then (read_image b image_file) (\<lambda>image_b64.
     let search_path = determine_path b query in
     and_then (process_query b query image_b64 search_path) (\<lambda>(vector, reason).
       if \<not> truthy vector then Inl (HTTPException 500 detail_empty_vector)
       else
         (case search b vector limit 1.2 of
            Inl _ \<Rightarrow> Inl (HTTPException 500 detail_database)
          | Inr results \<Rightarrow>
              let product_responses = sanitize (model_validate b) results in
              Inr [(ascii ''status'', Value (PStr (ascii ''SUCCESS''))),
                   (ascii ''answer'', Value reason),
                   (ascii ''products'', Products product_responses),
                   (ascii ''search_path'', Value search_path)])))"

section \<open>The claim's reading of the extraction\<close>

text \<open>
  The block that the specification's words describe: from the leftmost \<^verbatim>\<open>{\<close> through
  the \<^verbatim>\<open>}\<close> that closes it, braces counted by nesting depth. It is defined from the
  specification, for comparison with \<open>re_search_braces\<close>.
\<close>

fun matching_block :: "nat \<Rightarrow> pystr \<Rightarrow> pystr option" where
  "matching_block depth [] = None"
| "matching_block depth (c # cs) =
     (if c = 0x7B then map_option ((#) c) (matching_block (Suc depth) cs)
      else if c = 0x7D then
        (if depth \<le> 1 then Some [c] else map_option ((#) c) (matching_block (depth - 1) cs))
      else map_option ((#) c) (matching_block depth cs))"

definition spec_first_object :: "pystr \<Rightarrow> pystr option" where
  "spec_first_object text = matching_block 0 (dropWhile (\<lambda>c. c \<noteq> 0x7B) text)"

section \<open>Concrete collaborators and inputs\<close>

text \<open>An engine that refuses the image and cannot embed, and a decoder that rejects all.\<close>

definition e_fail :: env where
  "e_fail =
     \<lparr>generate_with_image = (\<lambda>p i. Inr (ascii ''Sorry, I cannot help with that.'')),
      generate_embedding = (\<lambda>t. Inl (OtherException (ascii ''model not loaded''))),
      json_loads = (\<lambda>s. Inl JSONDecodeError),
      py_repr = (\<lambda>v. Inr []),
      b64encode = (\<lambda>bs. [])\<rparr>"

text \<open>The same engine answering with prose that holds no object.\<close>

definition e_garbled :: env where
  "e_garbled = e_fail\<lparr>generate_with_image := (\<lambda>p i. Inr (ascii ''a red shoe, no data''))\<rparr>"

definition f0 :: upload_file where
  "f0 = \<lparr>filename = Some (ascii ''shoe.png''), read = Inr [1, 2, 3]\<rparr>"

text \<open>
  A decoder that knows one object, \<^verbatim>\<open>{"name":"Cap"}\<close>, and rejects every other text,
  as \<^verbatim>\<open>json.loads\<close> rejects an object followed by more data.
\<close>

definition cap_object :: pystr where
  "cap_object = ascii ''{\"name\":\"Cap\"}''"

definition e_cap :: env where
  "e_cap =
     \<lparr>generate_with_image = (\<lambda>p i. Inr (ascii ''Here you go: '' @ cap_object)),
      generate_embedding = (\<lambda>t. Inr [1]),
      json_loads = (\<lambda>s. if s = cap_object
                         then Inr (PDict [(ascii ''name'', PStr (ascii ''Cap''))])
                         else Inl JSONDecodeError),
      py_repr = (\<lambda>v. Inr []),
      b64encode = (\<lambda>bs. [])\<rparr>"

text \<open>
  A small catalog. Its vectors have one component, for which the Euclidean distance is
  the absolute difference.
\<close>

definition abs_distance :: "real list \<Rightarrow> real list \<Rightarrow> real" where
  "abs_distance a b = sum_list (map (\<lambda>(x, y). \<bar>x - y\<bar>) (zip a b))"

definition shoe :: "int \<Rightarrow> real list option \<Rightarrow> bool \<Rightarrow> int option \<Rightarrow> product" where
  "shoe i emb active deleted =
     \<lparr>product_id = i, name = Some (ascii ''Red shoes''), description = None,
      price = Some 100, stock_quantity = None, category = None, image_url = None,
      embedding = emb, is_active = active, created_at = 0, updated_at = 0,
      deleted_at = deleted\<rparr>"

definition db0 :: database where
  "db0 =
     \<lparr>available = True,
      rows = [shoe 1 (Some [1.5]) True None, shoe 2 (Some [0.4]) True None,
              shoe 3 (Some [0.1]) True (Some 7), shoe 4 None True None,
              shoe 5 (Some [0.2]) False None, shoe 6 (Some [0.3]) True None],
      dimension = 1,
      l2_distance = abs_distance\<rparr>"

text \<open>
  A retrieved list of three rows: one whose name is a single letter between blanks, one
  that a schema refusing negative prices rejects, and one that needs no repair.
\<close>

definition no_negative_price :: "p_dict \<Rightarrow> bool" where
  "no_negative_price d = (0 \<le> resp_price d)"

definition retrieved :: "product list" where
  "retrieved =
     [(shoe 1 None True None)\<lparr>name := Some (ascii '' a '')\<rparr>,
      (shoe 2 None True None)\<lparr>price := Some (- 5)\<rparr>,
      shoe 3 None True None]"

text \<open>
  A backend whose AI service answers both calls with status 200, the second with a
  one-component vector and the reason text of \<^verbatim>\<open>process_internal\<close>, and whose
  retrieval runs \<open>search_by_vector\<close> on the small catalog; the schema accepts all.
\<close>

definition floats :: "pyval \<Rightarrow> real list" where
  "floats v = (case v of PList xs \<Rightarrow> map (\<lambda>x. case x of PFloat r \<Rightarrow> r | _ \<Rightarrow> 0) xs | _ \<Rightarrow> [])"

definition query_reason :: pystr where
  "query_reason =
     [0x27] @ ascii ''red shoes'' @
     [0x27, 0x20, 0xAC80, 0xC0C9, 0x20, 0xACB0, 0xACFC, 0xC785, 0xB2C8, 0xB2E4, 0x2E]"

definition b0 :: backend where
  "b0 =
     \<lparr>AI_SERVICE_API_URL = ascii ''http://ai-service-api:8000/api/v1'',
      post = (\<lambda>url payload.
        if url = ascii ''http://ai-service-api:8000/api/v1/determine-path''
        then Inr \<lparr>status_code = 200,
                  json = Inr (PDict [(ascii ''path'', PStr (ascii ''INTERNAL''))])\<rparr>
        else Inr \<lparr>status_code = 200,
                  json = Inr (PDict [(ascii ''vector'', PList [PFloat 0]),
                                     (ascii ''reason'', PStr query_reason)])\<rparr>),
      search = (\<lambda>vector limit threshold.
        search_by_vector db0 (floats vector) limit None None None None threshold),
      model_validate = (\<lambda>d. True),
      encode_b64 = (\<lambda>bs. [])\<rparr>"

text \<open>The response of that backend to the query \<^verbatim>\<open>red shoes\<close>.\<close>

definition response0 :: "(pystr \<times> field_value) list" where
  "response0 =
     [(ascii ''status'', Value (PStr (ascii ''SUCCESS''))),
      (ascii ''answer'', Value (PStr query_reason)),
      (ascii ''products'',
         Products [to_p_dict (shoe 6 (Some [0.3]) True None),
                   to_p_dict (shoe 2 (Some [0.4]) True None)]),
      (ascii ''search_path'', Value (PStr (ascii ''INTERNAL'')))]"

text \<open>The price text of the specification's example, with the won sign.\<close>

definition won_price :: pystr where
  "won_price = [0x20A9] @ ascii ''10,000''"

text \<open>
  A generated text that is a well-formed object whose name is a number, the record the
  decoder reads from it, and an engine that produces the text and embeds anything.
\<close>

definition boot_description :: pystr where
  "boot_description = ascii ''A sturdy leather boot for winter.''"

definition mistyped_text :: pystr where
  "mistyped_text =
     ascii ''{\"name\": 5, \"category\": \"Food\", \"description\": \"A sturdy leather boot for winter.\", \"price\": 100}''"

definition mistyped_record :: pyval where
  "mistyped_record =
     PDict [(ascii ''name'', PInt 5), (ascii ''category'', PStr (ascii ''Food'')),
            (ascii ''description'', PStr boot_description), (ascii ''price'', PInt 100)]"

definition e_mistyped :: env where
  "e_mistyped =
     \<lparr>generate_with_image = (\<lambda>p i. Inr mistyped_text),
      generate_embedding = (\<lambda>t. Inr [1]),
      json_loads = (\<lambda>s. if s = mistyped_text then Inr mistyped_record
                         else Inl JSONDecodeError),
      py_repr = (\<lambda>v. Inr []),
      b64encode = (\<lambda>bs. [])\<rparr>"

text \<open>
  A generated text that opens with eager prose, in which the second refusal marker
  occurs, before the object.
\<close>

definition eager_text :: pystr where
  "eager_text = ascii ''I cannot wait to show you: '' @ cap_object"

definition e_eager :: env where
  "e_eager = e_cap\<lparr>generate_with_image := (\<lambda>p i. Inr eager_text)\<rparr>"

text \<open>
  A generated text that is a well-formed object whose category is null, the record the
  decoder reads from it, and an engine that produces the text and embeds anything.
\<close>

definition null_text :: pystr where
  "null_text =
     ascii ''{\"name\": \"Boot\", \"category\": null, \"description\": \"A sturdy leather boot for winter.\", \"price\": 100}''"

definition null_record :: pyval where
  "null_record =
     PDict [(ascii ''name'', PStr (ascii ''Boot'')), (ascii ''category'', PNone),
            (ascii ''description'', PStr boot_description), (ascii ''price'', PInt 100)]"

definition e_null :: env where
  "e_null =
     \<lparr>generate_with_image = (\<lambda>p i. Inr null_text),
      generate_embedding = (\<lambda>t. Inr [1]),
      json_loads = (\<lambda>s. if s = null_text then Inr null_record else Inl JSONDecodeError),
      py_repr = (\<lambda>v. Inr []),
      b64encode = (\<lambda>bs. [])\<rparr>"

text \<open>A price text of 4301 digits before the currency word.\<close>

definition long_price :: pystr where
  "long_price = replicate 4301 0x31 @ [0xC6D0]"

text \<open>The engine of the one object, answering with the object in a fence.\<close>

definition e_fenced :: env where
  "e_fenced =
     e_cap\<lparr>generate_with_image :=
             (\<lambda>p i. Inr (ascii ''Sure! ```json '' @ cap_object @ ascii '' ```''))\<rparr>"

section \<open>Properties\<close>

subsection \<open>Sequencing\<close>

lemma and_then_Inl_iff:
  "and_then r f = Inl err \<longleftrightarrow> r = Inl err \<or> (\<exists>v. r = Inr v \<and> f v = Inl err)"
  by (cases r) (auto simp: and_then_def)

lemma and_then_Inr_iff: "and_then r f = Inr y \<longleftrightarrow> (\<exists>v. r = Inr v \<and> f v = Inr y)"
  by (cases r) (auto simp: and_then_def)

subsection \<open>The extraction step\<close>

lemma dropWhile_to_brace:
  assumes "c \<notin> set pre"
  shows "dropWhile (\<lambda>x. x \<noteq> c) (pre @ c # xs) = c # xs"
  using assms by (induction pre) auto

lemma cut_after_last_brace:
  assumes "c \<notin> set suf"
  shows "rev (dropWhile (\<lambda>x. x \<noteq> c) (rev (ys @ c # suf))) = ys @ [c]"
proof -
  have "dropWhile (\<lambda>x. x \<noteq> c) (rev suf @ c # rev ys) = c # rev ys"
    using assms by (intro dropWhile_to_brace) simp
  then show ?thesis by simp
qed

lemma re_search_braces_block:
  assumes "0x7B \<notin> set pre" and "0x7D \<notin> set suf"
  shows "re_search_braces (pre @ (0x7B # body @ [0x7D]) @ suf) = Some (0x7B # body @ [0x7D])"
proof -
  have d: "dropWhile (\<lambda>c. c \<noteq> 0x7B) (pre @ (0x7B # body @ [0x7D]) @ suf) =
           0x7B # body @ 0x7D # suf"
    using dropWhile_to_brace [OF assms(1), of "body @ 0x7D # suf"] by simp
  have c: "rev (dropWhile (\<lambda>c. c \<noteq> 0x7D) (rev (0x7B # body @ 0x7D # suf))) =
           0x7B # body @ [0x7D]"
    using cut_after_last_brace [OF assms(2), of "0x7B # body"] by simp
  show ?thesis
    unfolding re_search_braces_def d Let_def using c by simp
qed

lemma fence_prefix:
  assumes "prefix (ascii ''```json'') s"
  shows "prefix (ascii ''```'') s"
proof -
  have "prefix (ascii ''```'') (ascii ''```json'')" by (simp add: ascii_def)
  with assms show ?thesis by (rule prefix_order.trans [rotated])
qed

lemma strip_fences_id:
  assumes "\<not> contains (ascii ''```'') s"
  shows "strip_fences s = s"
  using assms
proof (induction s)
  case Nil
  then show ?case by simp
next
  case (Cons c cs)
  then have np: "\<not> prefix (ascii ''```'') (c # cs)" and nc: "\<not> contains (ascii ''```'') cs"
    by auto
  from np fence_prefix have "\<not> prefix (ascii ''```json'') (c # cs)" by blast
  with np Cons.IH [OF nc] show ?case by simp
qed

lemma strip_fences_no_match:
  assumes "\<not> prefix (ascii ''```'') (c # cs)"
  shows "strip_fences (c # cs) = c # strip_fences cs"
proof -
  have "prefix (ascii ''```'') (ascii ''```json'')" by (simp add: ascii_def)
  with assms have "\<not> prefix (ascii ''```json'') (c # cs)"
    using prefix_order.trans by blast
  with assms show ?thesis by simp
qed

lemma strip_fences_two_backticks:
  assumes "prefix [0x60, 0x60] (strip_fences cs)"
  shows "prefix [0x60, 0x60] cs"
proof (cases cs)
  case Nil
  with assms show ?thesis by simp
next
  case (Cons x xs)
  show ?thesis
  proof (cases xs)
    case Nil
    with Cons assms show ?thesis by (simp add: ascii_def)
  next
    case (Cons y ys)
    show ?thesis
    proof (rule ccontr)
      assume n: "\<not> prefix [0x60, 0x60] cs"
      with \<open>cs = x # xs\<close> Cons have xy: "x \<noteq> 0x60 \<or> y \<noteq> 0x60" by simp
      then have "\<not> prefix (ascii ''```'') (x # y # ys)" by (auto simp: ascii_def)
      then have 1: "strip_fences (x # y # ys) = x # strip_fences (y # ys)"
        by (rule strip_fences_no_match)
      show False
      proof (cases "x = 0x60")
        case True
        with xy have "y \<noteq> 0x60" by simp
        then have "\<not> prefix (ascii ''```'') (y # ys)" by (simp add: ascii_def)
        then have "strip_fences (y # ys) = y # strip_fences ys"
          by (rule strip_fences_no_match)
        with 1 assms \<open>cs = x # xs\<close> Cons \<open>y \<noteq> 0x60\<close> show False by simp
      next
        case False
        with 1 assms \<open>cs = x # xs\<close> Cons show False by simp
      qed
    qed
  qed
qed

lemma strip_fences_leaves_no_fence: "\<not> contains (ascii ''```'') (strip_fences s)"
proof (induction s rule: strip_fences.induct)
  case 1
  then show ?case by (simp add: ascii_def)
next
  case (2 c cs)
  show ?case
  proof (cases "prefix (ascii ''```json'') (c # cs)")
    case True
    with 2 show ?thesis by simp
  next
    case nj: False
    show ?thesis
    proof (cases "prefix (ascii ''```'') (c # cs)")
      case True
      with nj 2 show ?thesis by simp
    next
      case False
      with nj 2 have ih: "\<not> contains (ascii ''```'') (strip_fences cs)" by simp
      have "\<not> prefix (ascii ''```'') (c # strip_fences cs)"
      proof
        assume "prefix (ascii ''```'') (c # strip_fences cs)"
        then have c: "c = 0x60" and "prefix [0x60, 0x60] (strip_fences cs)"
          by (simp_all add: ascii_def)
        then have "prefix [0x60, 0x60] cs" using strip_fences_two_backticks by blast
        with c have "prefix (ascii ''```'') (c # cs)" by (simp add: ascii_def)
        with False show False by simp
      qed
      with ih False nj show ?thesis by simp
    qed
  qed
qed

lemma normalize_fields:
  assumes "normalize e fname product_data = Inr r"
  shows "\<exists>n d c p v.
           validate_name fname product_data = Inr n \<and>
           validate_description product_data = Inr d \<and>
           validate_category product_data = Inr c \<and>
           validate_price e product_data = Inr p \<and>
           r = response n c d p v"
  using assms by (auto simp: normalize_def and_then_Inr_iff Let_def)

lemma analyze_body_normalizes:
  assumes "read upload = Inr contents"
    and "generate_with_image e VISION_ANALYSIS_PROMPT (b64encode e contents) = Inr generated_text"
    and "\<not> refusal generated_text"
  shows "analyze_body e upload =
           normalize e (filename upload) (parse_product_data e generated_text)"
  using assms by (simp add: analyze_body_def and_then_def)

text \<open>
  C1, as amended. The search takes the block from the leftmost \<^verbatim>\<open>{\<close> through the
  last \<^verbatim>\<open>}\<close> of the whole text and removes the fence tokens inside it, so that no
  fence token is left in what the decoder is given. So when no \<^verbatim>\<open>{\<close> stands before
  the embedded object and no \<^verbatim>\<open>}\<close> after it, the block is the object; when the
  object's own text holds no fence token either, the decoder is given exactly the
  object and the parsed record is exactly the fields the decoder reads from it. And
  when the text holds no refusal marker, so that the extraction step is reached, the
  validated fields are taken from exactly that object: the body of the handler is the
  validation of that record, and each field of what it returns is the validation of the
  object's field. Prose and fences around the object are allowed as long as they hold
  no such brace.
\<close>

theorem extraction_recovers_unambiguous_object:
  assumes "0x7B \<notin> set pre" and "0x7D \<notin> set suf" and "obj = 0x7B # body @ [0x7D]"
  shows "re_search_braces (pre @ obj @ suf) = Some obj \<and>
         json_candidate (pre @ obj @ suf) = strip_fences obj \<and>
         \<not> contains (ascii ''```'') (json_candidate (pre @ obj @ suf)) \<and>
         (\<not> contains (ascii ''```'') obj \<longrightarrow>
            json_candidate (pre @ obj @ suf) = obj \<and>
            (\<forall>fields. json_loads e obj = Inr (PDict fields) \<longrightarrow>
               parse_product_data e (pre @ obj @ suf) = PDict fields \<and>
               (\<forall>upload contents.
                  read upload = Inr contents \<and>
                  generate_with_image e VISION_ANALYSIS_PROMPT (b64encode e contents) =
                    Inr (pre @ obj @ suf) \<and>
                  \<not> contains (ascii ''cannot assist'') (pre @ obj @ suf) \<and>
                  \<not> contains (ascii ''I cannot'') (pre @ obj @ suf) \<longrightarrow>
                  analyze_body e upload = normalize e (filename upload) (PDict fields) \<and>
                  (\<forall>r. analyze_body e upload = Inr r \<longrightarrow>
                     analyze_image_handler e upload = Inr r \<and>
                     (\<exists>n d c p v.
                        validate_name (filename upload) (PDict fields) = Inr n \<and>
                        validate_description (PDict fields) = Inr d \<and>
                        validate_category (PDict fields) = Inr c \<and>
                        validate_price e (PDict fields) = Inr p \<and>
                        r = response n c d p v)))))"
proof -
  let ?text = "pre @ obj @ suf"
  have s: "re_search_braces ?text = Some obj"
    unfolding assms(3) by (rule re_search_braces_block [OF assms(1,2)])
  then have c: "json_candidate ?text = strip_fences obj"
    by (simp add: json_candidate_def)
  have rest: "json_candidate ?text = obj \<and>
            (\<forall>fields. json_loads e obj = Inr (PDict fields) \<longrightarrow>
               parse_product_data e ?text = PDict fields \<and>
               (\<forall>upload contents.
                  read upload = Inr contents \<and>
                  generate_with_image e VISION_ANALYSIS_PROMPT (b64encode e contents) =
                    Inr ?text \<and>
                  \<not> contains (ascii ''cannot assist'') ?text \<and>
                  \<not> contains (ascii ''I cannot'') ?text \<longrightarrow>
                  analyze_body e upload = normalize e (filename upload) (PDict fields) \<and>
                  (\<forall>r. analyze_body e upload = Inr r \<longrightarrow>
                     analyze_image_handler e upload = Inr r \<and>
                     (\<exists>n d c p v.
                        validate_name (filename upload) (PDict fields) = Inr n \<and>
                        validate_description (PDict fields) = Inr d \<and>
                        validate_category (PDict fields) = Inr c \<and>
                        validate_price e (PDict fields) = Inr p \<and>
                        r = response n c d p v))))"
    if nf: "\<not> contains (ascii ''```'') obj"
  proof -
    from c nf have cand: "json_candidate ?text = obj" by (simp add: strip_fences_id)
    have fields: "parse_product_data e ?text = PDict fields \<and>
               (\<forall>upload contents.
                  read upload = Inr contents \<and>
                  generate_with_image e VISION_ANALYSIS_PROMPT (b64encode e contents) =
                    Inr ?text \<and>
                  \<not> contains (ascii ''cannot assist'') ?text \<and>
                  \<not> contains (ascii ''I cannot'') ?text \<longrightarrow>
                  analyze_body e upload = normalize e (filename upload) (PDict fields) \<and>
                  (\<forall>r. analyze_body e upload = Inr r \<longrightarrow>
                     analyze_image_handler e upload = Inr r \<and>
                     (\<exists>n d c p v.
                        validate_name (filename upload) (PDict fields) = Inr n \<and>
                        validate_description (PDict fields) = Inr d \<and>
                        validate_category (PDict fields) = Inr c \<and>
                        validate_price e (PDict fields) = Inr p \<and>
                        r = response n c d p v)))"
      if l: "json_loads e obj = Inr (PDict fields)" for fields
    proof -
      from cand l have p: "parse_product_data e ?text = PDict fields"
        by (simp add: parse_product_data_def)
      have body: "analyze_body e upload = normalize e (filename upload) (PDict fields) \<and>
                  (\<forall>r. analyze_body e upload = Inr r \<longrightarrow>
                     analyze_image_handler e upload = Inr r \<and>
                     (\<exists>n d c p v.
                        validate_name (filename upload) (PDict fields) = Inr n \<and>
                        validate_description (PDict fields) = Inr d \<and>
                        validate_category (PDict fields) = Inr c \<and>
                        validate_price e (PDict fields) = Inr p \<and>
                        r = response n c d p v))"
        if h: "read upload = Inr contents \<and>
               generate_with_image e VISION_ANALYSIS_PROMPT (b64encode e contents) =
                 Inr ?text \<and>
               \<not> contains (ascii ''cannot assist'') ?text \<and>
               \<not> contains (ascii ''I cannot'') ?text" for upload contents
      proof -
        from h have "\<not> refusal ?text" by (simp add: refusal_def)
        with h have "analyze_body e upload =
                       normalize e (filename upload) (parse_product_data e ?text)"
          using analyze_body_normalizes [of upload contents e ?text] by blast
        with p have b: "analyze_body e upload = normalize e (filename upload) (PDict fields)"
          by simp
        with normalize_fields [of e "filename upload" "PDict fields"] show ?thesis
          by (simp add: analyze_image_handler_def)
      qed
      from p body show ?thesis by blast
    qed
    from cand fields show ?thesis by blast
  qed
  from c have nofence: "\<not> contains (ascii ''```'') (json_candidate ?text)"
    by (simp add: strip_fences_leaves_no_fence)
  from s c nofence rest show ?thesis by blast
qed

lemma fenced_cap_text:
  "0x7B \<notin> set (ascii ''Sure! ```json '')" "0x7D \<notin> set (ascii '' ```'')"
  "cap_object = 0x7B # ascii ''\"name\":\"Cap\"'' @ [0x7D]"
  "\<not> contains (ascii ''```'') cap_object"
  "\<not> contains (ascii ''cannot assist'') (ascii ''Sure! ```json '' @ cap_object @ ascii '' ```'')"
  "\<not> contains (ascii ''I cannot'') (ascii ''Sure! ```json '' @ cap_object @ ascii '' ```'')"
  by (simp_all add: cap_object_def ascii_def)

theorem extraction_recovers_unambiguous_object_witness:
  "0x7B \<notin> set (ascii ''Sure! ```json '') \<and> 0x7D \<notin> set (ascii '' ```'') \<and>
   cap_object = 0x7B # ascii ''\"name\":\"Cap\"'' @ [0x7D] \<and>
   \<not> contains (ascii ''```'') cap_object \<and>
   json_loads e_fenced cap_object = Inr (PDict [(ascii ''name'', PStr (ascii ''Cap''))]) \<and>
   parse_product_data e_fenced (ascii ''Sure! ```json '' @ cap_object @ ascii '' ```'') =
     PDict [(ascii ''name'', PStr (ascii ''Cap''))] \<and>
   read f0 = Inr [1, 2, 3] \<and>
   generate_with_image e_fenced VISION_ANALYSIS_PROMPT (b64encode e_fenced [1, 2, 3]) =
     Inr (ascii ''Sure! ```json '' @ cap_object @ ascii '' ```'') \<and>
   \<not> contains (ascii ''cannot assist'')
       (ascii ''Sure! ```json '' @ cap_object @ ascii '' ```'') \<and>
   \<not> contains (ascii ''I cannot'') (ascii ''Sure! ```json '' @ cap_object @ ascii '' ```'') \<and>
   analyze_body e_fenced f0 =
     normalize e_fenced (filename f0) (PDict [(ascii ''name'', PStr (ascii ''Cap''))])"
proof -
  let ?text = "ascii ''Sure! ```json '' @ cap_object @ ascii '' ```''"
  let ?fields = "[(ascii ''name'', PStr (ascii ''Cap''))]"
  have h5: "json_loads e_fenced cap_object = Inr (PDict ?fields)"
    by (simp add: e_fenced_def e_cap_def)
  have r: "read f0 = Inr [1, 2, 3]" by (simp add: f0_def)
  have g: "generate_with_image e_fenced VISION_ANALYSIS_PROMPT (b64encode e_fenced [1, 2, 3]) =
           Inr ?text"
    by (simp add: e_fenced_def)
  note t = extraction_recovers_unambiguous_object
             [OF fenced_cap_text(1) fenced_cap_text(2) fenced_cap_text(3), of e_fenced]
  from t fenced_cap_text(4) h5
  have p: "parse_product_data e_fenced ?text = PDict ?fields"
    by blast
  from t fenced_cap_text(4) h5
  have "\<forall>upload contents.
          read upload = Inr contents \<and>
          generate_with_image e_fenced VISION_ANALYSIS_PROMPT (b64encode e_fenced contents) =
            Inr ?text \<and>
          \<not> contains (ascii ''cannot assist'') ?text \<and>
          \<not> contains (ascii ''I cannot'') ?text \<longrightarrow>
          analyze_body e_fenced upload = normalize e_fenced (filename upload) (PDict ?fields)"
    by blast
  with r g fenced_cap_text(5) fenced_cap_text(6)
  have b: "analyze_body e_fenced f0 = normalize e_fenced (filename f0) (PDict ?fields)"
    by blast
  from fenced_cap_text h5 p r g b show ?thesis by blast
qed

text \<open>
  C1 as stated fails. In \<^verbatim>\<open>Here you go: {"name":"Cap"} (schema: {name})\<close> the block
  from the leftmost \<^verbatim>\<open>{\<close> through its matching \<^verbatim>\<open>}\<close> is the object, which the decoder
  reads, but the search runs on to the last \<^verbatim>\<open>}\<close> of the text, the decoder rejects that
  block, and the parsed record is empty. An object whose name holds a fence token
  reaches the decoder with the token cut out of the name. And for
  \<^verbatim>\<open>I cannot wait to show you: {"name":"Cap"}\<close> the extraction step is not reached: the
  text holds a refusal marker and the endpoint returns the failure record.
\<close>

theorem extraction_is_greedy_counterexample:
  "spec_first_object (ascii ''Here you go: '' @ cap_object @ ascii '' (schema: {name})'') =
     Some cap_object \<and>
   json_loads e_cap cap_object = Inr (PDict [(ascii ''name'', PStr (ascii ''Cap''))]) \<and>
   re_search_braces (ascii ''Here you go: '' @ cap_object @ ascii '' (schema: {name})'') =
     Some (cap_object @ ascii '' (schema: {name}'') \<and>
   parse_product_data e_cap
     (ascii ''Here you go: '' @ cap_object @ ascii '' (schema: {name})'') = PDict [] \<and>
   json_candidate (ascii ''{\"name\":\"a```b\"}'') = ascii ''{\"name\":\"ab\"}'' \<and>
   parse_product_data e_eager eager_text = PDict [(ascii ''name'', PStr (ascii ''Cap''))] \<and>
   analyze_body e_eager f0 = Inl ValueError \<and>
   analyze_image_handler e_eager f0 = Inr (error_response (Some (ascii ''shoe.png'')))"
  by (simp add: spec_first_object_def re_search_braces_def json_candidate_def
        parse_product_data_def e_cap_def e_eager_def eager_text_def cap_object_def ascii_def
        analyze_image_handler_def analyze_body_def f0_def and_then_def refusal_def)


subsection \<open>The image analysis endpoint\<close>

lemma normalize_returns_response:
  assumes "normalize e fname product_data = Inr r"
  shows "\<exists>n c d p v. r = response n c d p v"
  using normalize_fields [OF assms] by blast

lemma normalize_embedding_fails:
  assumes "\<forall>t. \<exists>x. generate_embedding e t = Inl x"
  shows "\<exists>x. normalize e fname product_data = Inl x"
proof (cases "normalize e fname product_data")
  case (Inl a)
  then show ?thesis by blast
next
  case (Inr r)
  then obtain t v where "generate_embedding e t = Inr v"
    by (auto simp: normalize_def and_then_Inr_iff Let_def)
  with assms show ?thesis by (metis sum.distinct(1))
qed

lemma analyze_body_returns_response:
  assumes "analyze_body e upload = Inr r"
  shows "\<exists>n c d p v. r = response n c d p v"
  using assms
  by (auto simp: analyze_body_def and_then_Inr_iff Let_def split: if_splits
      dest: normalize_returns_response)

lemma analyze_body_embedding_fails:
  assumes "\<forall>t. \<exists>x. generate_embedding e t = Inl x"
  shows "\<exists>x. analyze_body e upload = Inl x"
proof (cases "analyze_body e upload")
  case (Inl a)
  then show ?thesis by blast
next
  case (Inr r)
  then obtain pd where "normalize e (filename upload) pd = Inr r"
    by (auto simp: analyze_body_def and_then_Inr_iff Let_def split: if_splits)
  with normalize_embedding_fails [OF assms, of "filename upload" pd] show ?thesis by auto
qed

text \<open>
  The handler function by itself never raises, and what it returns is a dict of the
  five keys; when its \<^verbatim>\<open>try\<close> body raises, the dict is the failure record.
\<close>

lemma analyze_image_handler_returns_record:
  "\<exists>n c d p v. analyze_image_handler e upload =
     Inr (PDict [(ascii ''name'', n), (ascii ''category'', c), (ascii ''description'', d),
                 (ascii ''price'', PInt p), (ascii ''vector'', vector_value v)])"
proof (cases "analyze_body e upload")
  case (Inl a)
  then show ?thesis
    by (simp add: analyze_image_handler_def error_response_def response_def) blast
next
  case (Inr r)
  with analyze_body_returns_response [OF Inr] show ?thesis
    by (auto simp: analyze_image_handler_def response_def)
qed

lemma vector_value_fits: "is_float_list (vector_value v)"
  by (simp add: vector_value_def list_all_iff)

lemma error_response_fits: "ImageAnalysisResponse (error_response fname)"
  by (simp add: error_response_def response_def field_fits_def vector_value_fits ascii_def)

text \<open>
  The failure record fits the response model, so whenever the body of the handler
  raises, and in particular when embedding generation fails on every text, the endpoint
  answers with the failure record: category \<^verbatim>\<open>Etc\<close>, price 0 and 768 zeros.
\<close>

lemma analyze_image_failure_record:
  assumes "analyze_body e upload = Inl err"
  shows "analyze_image e upload =
           Inr (response (PStr (error_name (filename upload))) (PStr (ascii ''Etc''))
                  (PStr error_description) 0 (replicate 768 0))"
proof -
  from assms have "analyze_image_handler e upload = Inr (error_response (filename upload))"
    by (simp add: analyze_image_handler_def)
  then have "analyze_image e upload = Inr (error_response (filename upload))"
    by (simp add: analyze_image_def and_then_def error_response_fits)
  then show ?thesis by (simp add: error_response_def zero_vector_def)
qed

lemma analyze_image_embedding_fails:
  assumes "\<forall>t. \<exists>x. generate_embedding e t = Inl x"
  shows "analyze_image e upload =
           Inr (response (PStr (error_name (filename upload))) (PStr (ascii ''Etc''))
                  (PStr error_description) 0 (replicate 768 0))"
  using analyze_body_embedding_fails [OF assms, of upload] analyze_image_failure_record
  by blast

lemma null_parsed: "parse_product_data e_null null_text = null_record"
  by (simp add: parse_product_data_def json_candidate_def re_search_braces_def
        null_text_def ascii_def e_null_def)

lemma null_no_refusal: "\<not> refusal null_text"
  by (simp add: refusal_def null_text_def ascii_def)

lemma null_fields:
  "validate_name (Some (ascii ''shoe.png'')) null_record = Inr (PStr (ascii ''Boot''))"
  "validate_description null_record = Inr (PStr boot_description)"
  "validate_category null_record = Inr PNone"
  "validate_price e_null null_record = Inr 100"
  by (simp_all add: validate_name_def name_rejected_def validate_description_def
        validate_category_def validate_price_def price_body_def and_then_def
        null_record_def boot_description_def ascii_def placeholder_token_def
        strip_non_digits_def is_digit_def py_int_def decimal_value_def str_of_int_def
        digits_of_nat.simps max_str_digits_def)

text \<open>
  C3 fails on the code. For the generated text
  \<^verbatim>\<open>{"name": "Boot", "category": null, "description": "A sturdy leather boot for winter.", "price": 100}\<close>
  nothing raises inside the handler: the key \<^verbatim>\<open>category\<close> is present, so its value
  \<^verbatim>\<open>None\<close> is taken as it is, and the handler returns a dict of the five keys whose
  category is \<^verbatim>\<open>None\<close>. That dict does not fit the response model the route declares
  (\<^verbatim>\<open>category: str\<close>), and the endpoint raises \<^verbatim>\<open>ResponseValidationError\<close> instead of
  returning a record.
\<close>

theorem null_category_fails_response_model:
  "parse_product_data e_null null_text = null_record \<and>
   analyze_image_handler e_null f0 =
     Inr (PDict [(ascii ''name'', PStr (ascii ''Boot'')), (ascii ''category'', PNone),
                 (ascii ''description'', PStr boot_description), (ascii ''price'', PInt 100),
                 (ascii ''vector'', PList [PFloat 1])]) \<and>
   \<not> ImageAnalysisResponse
       (PDict [(ascii ''name'', PStr (ascii ''Boot'')), (ascii ''category'', PNone),
               (ascii ''description'', PStr boot_description), (ascii ''price'', PInt 100),
               (ascii ''vector'', PList [PFloat 1])]) \<and>
   analyze_image e_null f0 = Inl ResponseValidationError"
proof -
  have shape: "response (PStr (ascii ''Boot'')) PNone (PStr boot_description) 100 [1] =
     PDict [(ascii ''name'', PStr (ascii ''Boot'')), (ascii ''category'', PNone),
            (ascii ''description'', PStr boot_description), (ascii ''price'', PInt 100),
            (ascii ''vector'', PList [PFloat 1])]"
    by (simp add: response_def vector_value_def)
  have f: "filename f0 = Some (ascii ''shoe.png'')" by (simp add: f0_def)
  have r: "read f0 = Inr [1, 2, 3]" by (simp add: f0_def)
  have g: "generate_with_image e_null p i = Inr null_text" for p i
    by (simp add: e_null_def)
  have emb: "generate_embedding e_null t = Inr [1]" for t
    by (simp add: e_null_def)
  have n: "normalize e_null (Some (ascii ''shoe.png'')) null_record =
             Inr (response (PStr (ascii ''Boot'')) PNone (PStr boot_description) 100 [1])"
    by (simp add: normalize_def null_fields and_then_def emb)
  have "analyze_body e_null f0 =
          Inr (response (PStr (ascii ''Boot'')) PNone (PStr boot_description) 100 [1])"
    unfolding analyze_body_def
    by (simp add: r f and_then_def g null_no_refusal null_parsed n)
  then have h: "analyze_image_handler e_null f0 =
          Inr (response (PStr (ascii ''Boot'')) PNone (PStr boot_description) 100 [1])"
    by (simp add: analyze_image_handler_def)
  have v: "\<not> ImageAnalysisResponse
               (response (PStr (ascii ''Boot'')) PNone (PStr boot_description) 100 [1])"
    by (simp add: response_def field_fits_def ascii_def)
  from h v have "analyze_image e_null f0 = Inl ResponseValidationError"
    by (simp add: analyze_image_def and_then_def)
  with null_parsed h v show ?thesis unfolding shape by blast
qed

text \<open>
  C6. When the generated text contains \<^verbatim>\<open>cannot assist\<close> or \<^verbatim>\<open>I cannot\<close>, the handler
  returns the full fallback record, every field of which is fixed by the handler and the
  file name alone: the result is the same whatever the decoder, the embedding engine
  and the stringification are, so no extraction takes part in it.
\<close>

theorem refusal_gives_full_fallback:
  assumes "read upload = Inr contents"
    and "generate_with_image e VISION_ANALYSIS_PROMPT (b64encode e contents) = Inr generated_text"
    and "contains (ascii ''cannot assist'') generated_text \<or>
         contains (ascii ''I cannot'') generated_text"
  shows "\<forall>loads emb r.
           analyze_image (e\<lparr>json_loads := loads, generate_embedding := emb, py_repr := r\<rparr>)
             upload =
           Inr (response (PStr (error_name (filename upload))) (PStr (ascii ''Etc''))
                  (PStr error_description) 0 zero_vector)"
proof (intro allI)
  fix loads emb r
  let ?e = "e\<lparr>json_loads := loads, generate_embedding := emb, py_repr := r\<rparr>"
  from assms have "analyze_body ?e upload = Inl ValueError"
    by (simp add: analyze_body_def and_then_def refusal_def)
  from analyze_image_failure_record [OF this]
  show "analyze_image ?e upload =
           Inr (response (PStr (error_name (filename upload))) (PStr (ascii ''Etc''))
                  (PStr error_description) 0 zero_vector)"
    by (simp add: zero_vector_def)
qed

theorem refusal_gives_full_fallback_witness:
  "read f0 = Inr [1, 2, 3] \<and>
   generate_with_image e_fail VISION_ANALYSIS_PROMPT (b64encode e_fail [1, 2, 3]) =
     Inr (ascii ''Sorry, I cannot help with that.'') \<and>
   contains (ascii ''I cannot'') (ascii ''Sorry, I cannot help with that.'') \<and>
   analyze_image e_fail f0 =
     Inr (response (PStr (error_name (Some (ascii ''shoe.png'')))) (PStr (ascii ''Etc''))
            (PStr error_description) 0 zero_vector)"
proof -
  have c: "contains (ascii ''I cannot'') (ascii ''Sorry, I cannot help with that.'')"
    by (simp add: ascii_def)
  have r: "read f0 = Inr [1, 2, 3]" by (simp add: f0_def)
  have g: "generate_with_image e_fail VISION_ANALYSIS_PROMPT (b64encode e_fail [1, 2, 3]) =
           Inr (ascii ''Sorry, I cannot help with that.'')"
    by (simp add: e_fail_def)
  have same: "e_fail\<lparr>json_loads := json_loads e_fail,
                generate_embedding := generate_embedding e_fail,
                py_repr := py_repr e_fail\<rparr> = e_fail"
    by simp
  have f: "filename f0 = Some (ascii ''shoe.png'')" by (simp add: f0_def)
  from refusal_gives_full_fallback [OF r g disjI2 [OF c]] same f
  have "analyze_image e_fail f0 =
     Inr (response (PStr (error_name (Some (ascii ''shoe.png'')))) (PStr (ascii ''Etc''))
            (PStr error_description) 0 zero_vector)"
    by metis
  with c r g show ?thesis by blast
qed

subsection \<open>The text embedding endpoint\<close>

text \<open>
  C10. When embedding generation raises, \<^verbatim>\<open>embed_text\<close> does not raise: it returns
  the ordinary response with a vector of 768 zeros. That vector is not empty, so it is
  truthy for a caller's emptiness check, and the response is the very one an engine
  that computed the zero vector would have produced.
\<close>

theorem embed_text_failure_is_zero_vector:
  assumes "generate_embedding e text = Inl err"
  shows "embed_text e text = Inr (PDict [(ascii ''vector'', vector_value zero_vector)]) \<and>
         length zero_vector = 768 \<and> list_all (\<lambda>x. x = 0) zero_vector \<and>
         zero_vector \<noteq> [] \<and> truthy (vector_value zero_vector) \<and>
         embed_text e text =
           embed_text (e\<lparr>generate_embedding := (\<lambda>t. Inr zero_vector)\<rparr>) text"
  using assms
  by (simp add: embed_text_def zero_vector_def vector_value_def list_all_iff)

theorem embed_text_failure_is_zero_vector_witness:
  "generate_embedding e_fail (ascii ''red shoes'') =
     Inl (OtherException (ascii ''model not loaded'')) \<and>
   embed_text e_fail (ascii ''red shoes'') =
     Inr (PDict [(ascii ''vector'', vector_value (replicate 768 0))])"
  using embed_text_failure_is_zero_vector
          [of e_fail "ascii ''red shoes''" "OtherException (ascii ''model not loaded'')"]
  by (simp add: e_fail_def zero_vector_def)

subsection \<open>Field validation\<close>

lemma mistyped_parsed: "parse_product_data e_mistyped mistyped_text = mistyped_record"
  by (simp add: parse_product_data_def json_candidate_def re_search_braces_def
        mistyped_text_def ascii_def e_mistyped_def)

lemma mistyped_no_refusal: "\<not> refusal mistyped_text"
  by (simp add: refusal_def mistyped_text_def ascii_def)

lemma mistyped_fields:
  "validate_name (Some (ascii ''shoe.png'')) mistyped_record = Inl TypeError"
  "validate_description mistyped_record = Inr (PStr boot_description)"
  "validate_category mistyped_record = Inr (PStr (ascii ''Food''))"
  "validate_price e_mistyped mistyped_record = Inr 100"
  by (simp_all add: validate_name_def name_rejected_def validate_description_def
        validate_category_def validate_price_def price_body_def and_then_def
        mistyped_record_def boot_description_def ascii_def placeholder_token_def
        strip_non_digits_def is_digit_def py_int_def decimal_value_def str_of_int_def
        digits_of_nat.simps max_str_digits_def)

lemma string_name_keeps_every_field:
  "normalize e_mistyped (Some (ascii ''shoe.png''))
     (PDict [(ascii ''name'', PStr (ascii ''Boot'')), (ascii ''category'', PStr (ascii ''Food'')),
             (ascii ''description'', PStr boot_description), (ascii ''price'', PInt 100)]) =
   Inr (response (PStr (ascii ''Boot'')) (PStr (ascii ''Food'')) (PStr boot_description) 100 [1])"
  by (simp add: normalize_def validate_name_def name_rejected_def validate_description_def
        validate_category_def validate_price_def price_body_def and_then_def
        boot_description_def ascii_def placeholder_token_def strip_non_digits_def
        is_digit_def py_int_def decimal_value_def str_of_int_def digits_of_nat.simps
        max_str_digits_def e_mistyped_def)

text \<open>
  C4 fails on the code. For the generated text
  \<^verbatim>\<open>{"name": 5, "category": "Food", "description": "A sturdy leather boot for winter.", "price": 100}\<close>
  the description, the category and the price each validate on their own (to the
  extracted description, \<^verbatim>\<open>Food\<close> and 100), but the test for the placeholder token
  in the name raises \<^verbatim>\<open>TypeError\<close> on the number, the outer handler takes over, and
  the returned record has the failure description, category \<^verbatim>\<open>Etc\<close> and price 0: the
  mistyped name has invalidated every other field. With a string name the same record
  keeps all of them (\<open>string_name_keeps_every_field\<close>).
\<close>

theorem mistyped_name_discards_every_field:
  "validate_name (filename f0) mistyped_record = Inl TypeError \<and>
   validate_description mistyped_record = Inr (PStr boot_description) \<and>
   validate_category mistyped_record = Inr (PStr (ascii ''Food'')) \<and>
   validate_price e_mistyped mistyped_record = Inr 100 \<and>
   analyze_image e_mistyped f0 =
     Inr (response (PStr (error_name (Some (ascii ''shoe.png'')))) (PStr (ascii ''Etc''))
            (PStr error_description) 0 zero_vector)"
proof -
  have f: "filename f0 = Some (ascii ''shoe.png'')" by (simp add: f0_def)
  have n: "normalize e_mistyped (Some (ascii ''shoe.png'')) mistyped_record = Inl TypeError"
    by (simp add: normalize_def mistyped_fields and_then_def)
  have g: "generate_with_image e_mistyped p i = Inr mistyped_text" for p i
    by (simp add: e_mistyped_def)
  have r: "read f0 = Inr [1, 2, 3]" by (simp add: f0_def)
  have "analyze_body e_mistyped f0 = Inl TypeError"
    unfolding analyze_body_def
    by (simp add: r f and_then_def g mistyped_no_refusal mistyped_parsed n)
  from analyze_image_failure_record [OF this] f
  have "analyze_image e_mistyped f0 =
     Inr (response (PStr (error_name (Some (ascii ''shoe.png'')))) (PStr (ascii ''Etc''))
            (PStr error_description) 0 zero_vector)"
    by (simp add: zero_vector_def)
  with f mistyped_fields show ?thesis by simp
qed


subsection \<open>Vector retrieval\<close>

lemmas run_search =
  search_by_vector_def search_statement_def execute_def db0_def shoe_def order_by_def
  filter_by_def limit_to_def select_product_def selected_def sort_position_def Let_def
  abs_distance_def statement_fits_def

lemma search_db0:
  "search_by_vector db0 [0] 10 None None None None 1.2 =
     Inr [shoe 6 (Some [0.3]) True None, shoe 2 (Some [0.4]) True None]"
  by (simp add: run_search)

lemma search_statement_parts:
  "order_by_clause
     (search_statement q limit min_price max_price exclude_id exclude_category threshold) =
   Some (L2Distance q)"
  "limit_clause
     (search_statement q limit min_price max_price exclude_id exclude_category threshold) =
   Some limit"
  "\<exists>rest. where_criteria
            (search_statement q limit min_price max_price exclude_id exclude_category
               threshold) =
          [IsActive, DeletedAtIsNull, EmbeddingIsNotNull, LessThan (L2Distance q) threshold]
          @ rest"
  by (simp_all add: search_statement_def order_by_def filter_by_def limit_to_def
        select_product_def Let_def split: option.splits)

lemma selected_base:
  assumes "selected db
             ([IsActive, DeletedAtIsNull, EmbeddingIsNotNull, LessThan (L2Distance q) threshold]
              @ rest) p"
  shows "is_active p \<and> deleted_at p = None \<and> embedding p \<noteq> None \<and>
         (\<exists>d. distance db q p = Some d \<and> d < threshold)"
  using assms by (auto simp: selected_def distance_def)

lemma execute_result:
  assumes "execute db stmt = Inr result"
    and "order_by_clause stmt = Some col" and "limit_clause stmt = Some n"
  shows "0 \<le> n \<and>
         result = take (nat n) (sort_key (sort_position db col)
                    (filter (selected db (where_criteria stmt)) (rows db)))"
  using assms by (auto simp: execute_def Let_def split: if_splits)

lemma search_result:
  assumes "search_by_vector db q limit min_price max_price exclude_id exclude_category
             threshold = Inr result"
  shows "0 \<le> limit \<and>
         result = take (nat limit) (sort_key (sort_position db (L2Distance q))
           (filter (selected db (where_criteria
              (search_statement q limit min_price max_price exclude_id exclude_category
                 threshold))) (rows db)))"
  using assms unfolding search_by_vector_def
  by (rule execute_result) (rule search_statement_parts)+

lemma search_member:
  assumes "search_by_vector db q limit min_price max_price exclude_id exclude_category
             threshold = Inr result"
    and "p \<in> set result"
  shows "p \<in> set (rows db) \<and>
         selected db (where_criteria
           (search_statement q limit min_price max_price exclude_id exclude_category
              threshold)) p"
proof -
  from search_result [OF assms(1)] assms(2)
  have "p \<in> set (take (nat limit) (sort_key (sort_position db (L2Distance q))
           (filter (selected db (where_criteria
              (search_statement q limit min_price max_price exclude_id exclude_category
                 threshold))) (rows db))))"
    by simp
  then have "p \<in> set (sort_key (sort_position db (L2Distance q))
           (filter (selected db (where_criteria
              (search_statement q limit min_price max_price exclude_id exclude_category
                 threshold))) (rows db)))"
    by (rule in_set_takeD)
  then show ?thesis by simp
qed

lemma search_member_base:
  assumes "search_by_vector db q limit min_price max_price exclude_id exclude_category
             threshold = Inr result"
    and "p \<in> set result"
  shows "is_active p \<and> deleted_at p = None \<and> embedding p \<noteq> None \<and>
         (\<exists>d. distance db q p = Some d \<and> d < threshold)"
proof -
  obtain rest where
    "where_criteria
       (search_statement q limit min_price max_price exclude_id exclude_category threshold) =
     [IsActive, DeletedAtIsNull, EmbeddingIsNotNull, LessThan (L2Distance q) threshold] @ rest"
    using search_statement_parts(3) by blast
  with search_member [OF assms] show ?thesis
    using selected_base by metis
qed

text \<open>
  C2. Every item that a retrieval call returns is a row of the table that is eligible
  (not soft-deleted, active, with an embedding) and whose distance to the query vector
  is strictly below the threshold; a row whose distance is at or above the threshold is
  never returned; and in the WHERE clause that the call builds, the three structural
  criteria stand before the distance criterion.
\<close>

theorem search_by_vector_returns_only_eligible_near_items:
  assumes "search_by_vector db q limit min_price max_price exclude_id exclude_category
             threshold = Inr result"
  shows "(\<forall>p \<in> set result. p \<in> set (rows db) \<and> eligible p \<and>
            (\<exists>d. distance db q p = Some d \<and> d < threshold)) \<and>
         (\<forall>p d. distance db q p = Some d \<and> threshold \<le> d \<longrightarrow> p \<notin> set result) \<and>
         (\<exists>rest. where_criteria
              (search_statement q limit min_price max_price exclude_id exclude_category
                 threshold) =
            [IsActive, DeletedAtIsNull, EmbeddingIsNotNull] @
            [LessThan (L2Distance q) threshold] @ rest)"
proof -
  have members: "p \<in> set (rows db) \<and> eligible p \<and>
                 (\<exists>d. distance db q p = Some d \<and> d < threshold)"
    if "p \<in> set result" for p
    using search_member [OF assms that] search_member_base [OF assms that]
    by (simp add: eligible_def)
  have excluded: "p \<notin> set result" if "distance db q p = Some d \<and> threshold \<le> d" for p d
  proof
    assume "p \<in> set result"
    from search_member_base [OF assms this] that show False by auto
  qed
  have order: "\<exists>rest. where_criteria
              (search_statement q limit min_price max_price exclude_id exclude_category
                 threshold) =
            [IsActive, DeletedAtIsNull, EmbeddingIsNotNull] @
            [LessThan (L2Distance q) threshold] @ rest"
    using search_statement_parts(3)
            [of q limit min_price max_price exclude_id exclude_category threshold]
    by simp
  from members excluded order show ?thesis by blast
qed

theorem search_by_vector_returns_only_eligible_near_items_witness:
  "search_by_vector db0 [0] 10 None None None None 1.2 =
     Inr [shoe 6 (Some [0.3]) True None, shoe 2 (Some [0.4]) True None] \<and>
   eligible (shoe 2 (Some [0.4]) True None) \<and>
   distance db0 [0] (shoe 1 (Some [1.5]) True None) = Some 1.5 \<and>
   shoe 1 (Some [1.5]) True None \<notin>
     set [shoe 6 (Some [0.3]) True None, shoe 2 (Some [0.4]) True None]"
proof -
  have d: "distance db0 [0] (shoe 1 (Some [1.5]) True None) = Some 1.5"
    by (simp add: distance_def db0_def shoe_def abs_distance_def)
  from search_by_vector_returns_only_eligible_near_items [OF search_db0] d
  show ?thesis using search_db0 by (simp add: shoe_def)
qed

text \<open>The ways in which executing raises, on the small catalog.\<close>

lemma search_raises:
  "search_by_vector (db0\<lparr>available := False\<rparr>) [0] 10 None None None None 1.2 =
     Inl (OtherException (ascii ''connection refused''))"
  "search_by_vector db0 [0, 0] 10 None None None None 1.2 =
     Inl (OtherException (ascii ''different vector dimensions''))"
  "search_by_vector db0 [0] (- 1) None None None None 1.2 =
     Inl (OtherException (ascii ''LIMIT must not be negative''))"
  "search_by_vector db0 [0] (2 ^ 63) None None None None 1.2 =
     Inl (OtherException (ascii ''value out of range''))"
  by (simp_all add: run_search)

lemma sort_position_le:
  assumes "distance db q a = Some da" and "distance db q b = Some db'"
  shows "sort_position db (L2Distance q) a \<le> sort_position db (L2Distance q) b \<longleftrightarrow> da \<le> db'"
  using assms by (auto simp: sort_position_def distance_def)

lemma sorted_positions_take:
  "sorted (map f (take n (sort_key f xs)))"
proof -
  have "sorted (take n (map f (sort_key f xs)))"
    by (intro sorted_wrt_take) simp
  then show ?thesis by (simp add: take_map)
qed

lemma sorted_distances:
  assumes "sorted (map (sort_position db (L2Distance q)) result)"
    and "\<forall>p \<in> set result. \<exists>d. distance db q p = Some d"
  shows "\<exists>ds. map (distance db q) result = map Some ds \<and> sorted ds"
  using assms
proof (induction result)
  case Nil
  then show ?case by simp
next
  case (Cons p ps)
  then obtain ds where ds: "map (distance db q) ps = map Some ds" "sorted ds"
    by auto
  from Cons.prems(2) obtain d where d: "distance db q p = Some d" by auto
  have "d \<le> x" if "x \<in> set ds" for x
  proof -
    from that have "Some x \<in> set (map (distance db q) ps)" using ds(1) by simp
    then obtain r where r: "r \<in> set ps" "distance db q r = Some x" by auto
    with Cons.prems(1) have "sort_position db (L2Distance q) p \<le> sort_position db (L2Distance q) r"
      by simp
    with sort_position_le [OF d r(2)] show ?thesis by simp
  qed
  with ds d have "map (distance db q) (p # ps) = map Some (d # ds) \<and> sorted (d # ds)"
    by simp
  then show ?case by blast
qed

lemma not_taken_is_farther:
  assumes "sorted (map f xs)" and "p \<in> set xs" and "p \<notin> set (take n xs)" and "r \<in> set (take n xs)"
  shows "f r \<le> f p"
proof -
  from assms(2,3) have "p \<in> set (drop n xs)"
    by (metis Un_iff append_take_drop_id set_append)
  moreover have "sorted (map f (take n xs) @ map f (drop n xs))"
    using assms(1) by (metis append_take_drop_id map_append)
  ultimately show ?thesis using assms(4) by (auto simp: sorted_append)
qed

text \<open>
  C8. Whenever a retrieval call returns, the distances of the returned items to the
  query vector are non-decreasing along the list. The result is the first \<open>limit\<close> rows
  of the list obtained by first selecting the rows that satisfy every criterion and
  then ordering them by distance: the cap comes after the filters and after the
  ordering, the result has at most \<open>limit\<close> items, and every selected row left out is
  at least as far from the query vector as every returned item.
\<close>

theorem search_by_vector_sorted_and_capped:
  assumes "search_by_vector db q limit min_price max_price exclude_id exclude_category
             threshold = Inr result"
  shows "(\<exists>ds. map (distance db q) result = map Some ds \<and> sorted ds) \<and>
         0 \<le> limit \<and> int (length result) \<le> limit \<and>
         result = take (nat limit) (sort_key (sort_position db (L2Distance q))
                    (filter (selected db (where_criteria
                       (search_statement q limit min_price max_price exclude_id
                          exclude_category threshold))) (rows db))) \<and>
         (\<forall>p r dp dr.
            p \<in> set (rows db) \<and>
            selected db (where_criteria
              (search_statement q limit min_price max_price exclude_id exclude_category
                 threshold)) p \<and>
            p \<notin> set result \<and> r \<in> set result \<and>
            distance db q p = Some dp \<and> distance db q r = Some dr \<longrightarrow> dr \<le> dp)"
proof -
  let ?crit = "where_criteria (search_statement q limit min_price max_price exclude_id
                 exclude_category threshold)"
  let ?sorted = "sort_key (sort_position db (L2Distance q))
                   (filter (selected db ?crit) (rows db))"
  from search_result [OF assms] have lim: "0 \<le> limit"
    and res: "result = take (nat limit) ?sorted"
    by simp_all
  from res lim have len: "int (length result) \<le> limit" by simp
  have "sorted (map (sort_position db (L2Distance q)) result)"
    unfolding res by (rule sorted_positions_take)
  moreover have "\<forall>p \<in> set result. \<exists>d. distance db q p = Some d"
    using search_member_base [OF assms] by blast
  ultimately have ord: "\<exists>ds. map (distance db q) result = map Some ds \<and> sorted ds"
    by (rule sorted_distances)
  have closest: "dr \<le> dp"
    if a: "p \<in> set (rows db) \<and> selected db ?crit p \<and> p \<notin> set result \<and> r \<in> set result \<and>
           distance db q p = Some dp \<and> distance db q r = Some dr" for p r dp dr
  proof -
    have "sorted (map (sort_position db (L2Distance q)) ?sorted)" by simp
    moreover from a have "p \<in> set ?sorted" by simp
    moreover from a res have "p \<notin> set (take (nat limit) ?sorted)"
      "r \<in> set (take (nat limit) ?sorted)"
      by simp_all
    ultimately have "sort_position db (L2Distance q) r \<le> sort_position db (L2Distance q) p"
      by (rule not_taken_is_farther)
    with a show ?thesis using sort_position_le by blast
  qed
  from ord lim len res closest show ?thesis by blast
qed

lemma search_db0_1:
  "search_by_vector db0 [0] 1 None None None None 1.2 = Inr [shoe 6 (Some [0.3]) True None]"
  by (simp add: run_search)

theorem search_by_vector_sorted_and_capped_witness:
  "search_by_vector db0 [0] 1 None None None None 1.2 = Inr [shoe 6 (Some [0.3]) True None] \<and>
   int (length [shoe 6 (Some [0.3]) True None]) \<le> 1 \<and>
   shoe 2 (Some [0.4]) True None \<in> set (rows db0) \<and>
   distance db0 [0] (shoe 2 (Some [0.4]) True None) = Some 0.4 \<and>
   distance db0 [0] (shoe 6 (Some [0.3]) True None) = Some 0.3 \<and>
   (0.3::real) \<le> 0.4"
proof -
  let ?p = "shoe 2 (Some [0.4]) True None" and ?r = "shoe 6 (Some [0.3]) True None"
  have m: "?p \<in> set (rows db0)" by (simp add: db0_def)
  have sel: "selected db0 (where_criteria (search_statement [0] 1 None None None None 1.2)) ?p"
    by (simp add: run_search)
  have nr: "?p \<notin> set [?r]" by (simp add: shoe_def)
  have dp: "distance db0 [0] ?p = Some 0.4"
    by (simp add: distance_def db0_def shoe_def abs_distance_def)
  have dr: "distance db0 [0] ?r = Some 0.3"
    by (simp add: distance_def db0_def shoe_def abs_distance_def)
  from search_by_vector_sorted_and_capped [OF search_db0_1]
  have "\<forall>p r dp dr.
         p \<in> set (rows db0) \<and>
         selected db0 (where_criteria (search_statement [0] 1 None None None None 1.2)) p \<and>
         p \<notin> set [?r] \<and> r \<in> set [?r] \<and>
         distance db0 [0] p = Some dp \<and> distance db0 [0] r = Some dr \<longrightarrow> dr \<le> dp"
    by blast
  with m sel nr dp dr have "(0.3::real) \<le> 0.4" by (metis list.set_intros(1))
  with m dp dr search_db0_1 show ?thesis by simp
qed

subsection \<open>The sanitizer\<close>

lemma sanitize_filter: "sanitize accepts results = filter accepts (map to_p_dict results)"
  by (induction results) simp_all

lemma clean_name_placeholder:
  assumes "n = None \<or> (\<exists>s. n = Some s \<and> length (strip s) < 2)"
  shows "clean_name n = name_placeholder"
  using assms by (auto simp: clean_name_def)

text \<open>
  C7. The sanitizer returns the cleansed rows that the schema accepts, in their input
  order: its output is a subsequence of the cleansed input and never longer than the
  input. When exactly one row of the input is rejected and all the others are
  accepted, the output is the cleansed others, one item fewer than the input. Every
  accepted row whose name was null, or shorter than two characters once the white
  space around it is removed, is in the output under the placeholder name.
\<close>

theorem sanitize_keeps_order_and_names:
  "sanitize accepts results = filter accepts (map to_p_dict results) \<and>
   subseq (sanitize accepts results) (map to_p_dict results) \<and>
   length (sanitize accepts results) \<le> length results \<and>
   (\<forall>xs bad ys.
      results = xs @ bad # ys \<and> \<not> accepts (to_p_dict bad) \<and>
      list_all (\<lambda>p. accepts (to_p_dict p)) (xs @ ys) \<longrightarrow>
      sanitize accepts results = map to_p_dict (xs @ ys) \<and>
      length (sanitize accepts results) = length xs + length ys) \<and>
   (\<forall>p \<in> set results.
      accepts (to_p_dict p) \<and>
      (name p = None \<or> (\<exists>s. name p = Some s \<and> length (strip s) < 2)) \<longrightarrow>
      to_p_dict p \<in> set (sanitize accepts results) \<and>
      resp_name (to_p_dict p) = name_placeholder)"
proof -
  have f: "sanitize accepts results = filter accepts (map to_p_dict results)"
    by (rule sanitize_filter)
  have s: "subseq (sanitize accepts results) (map to_p_dict results)"
    unfolding f by (rule subseq_filter_left)
  have l: "length (sanitize accepts results) \<le> length results"
    unfolding f using length_filter_le [of accepts "map to_p_dict results"] by simp
  have one: "sanitize accepts results = map to_p_dict (xs @ ys) \<and>
             length (sanitize accepts results) = length xs + length ys"
    if "results = xs @ bad # ys \<and> \<not> accepts (to_p_dict bad) \<and>
        list_all (\<lambda>p. accepts (to_p_dict p)) (xs @ ys)" for xs bad ys
  proof -
    from that have "filter accepts (map to_p_dict xs) = map to_p_dict xs"
      and "filter accepts (map to_p_dict ys) = map to_p_dict ys"
      by (simp_all add: list_all_iff)
    with that have "sanitize accepts results = map to_p_dict (xs @ ys)"
      unfolding f by simp
    then show ?thesis by simp
  qed
  have nm: "to_p_dict p \<in> set (sanitize accepts results) \<and>
            resp_name (to_p_dict p) = name_placeholder"
    if "p \<in> set results"
      and "accepts (to_p_dict p) \<and>
           (name p = None \<or> (\<exists>s. name p = Some s \<and> length (strip s) < 2))" for p
  proof -
    from that have "to_p_dict p \<in> set (sanitize accepts results)"
      unfolding f by simp
    moreover from that(2) have "resp_name (to_p_dict p) = name_placeholder"
      by (simp add: to_p_dict_def clean_name_placeholder)
    ultimately show ?thesis by simp
  qed
  from f s l one nm show ?thesis by blast
qed

lemma sanitize_retrieved:
  "sanitize no_negative_price retrieved =
     [to_p_dict ((shoe 1 None True None)\<lparr>name := Some (ascii '' a '')\<rparr>),
      to_p_dict (shoe 3 None True None)]"
  by (simp add: retrieved_def no_negative_price_def to_p_dict_def shoe_def)

theorem sanitize_keeps_order_and_names_witness:
  "retrieved = [(shoe 1 None True None)\<lparr>name := Some (ascii '' a '')\<rparr>] @
     (shoe 2 None True None)\<lparr>price := Some (- 5)\<rparr> # [shoe 3 None True None] \<and>
   \<not> no_negative_price (to_p_dict ((shoe 2 None True None)\<lparr>price := Some (- 5)\<rparr>)) \<and>
   list_all (\<lambda>p. no_negative_price (to_p_dict p))
     ([(shoe 1 None True None)\<lparr>name := Some (ascii '' a '')\<rparr>] @ [shoe 3 None True None]) \<and>
   length (sanitize no_negative_price retrieved) = 2 \<and>
   length (strip (ascii '' a '')) < 2 \<and>
   resp_name (to_p_dict ((shoe 1 None True None)\<lparr>name := Some (ascii '' a '')\<rparr>)) =
     name_placeholder"
proof -
  let ?a = "(shoe 1 None True None)\<lparr>name := Some (ascii '' a '')\<rparr>"
  let ?b = "(shoe 2 None True None)\<lparr>price := Some (- 5)\<rparr>"
  let ?c = "shoe 3 None True None"
  have r: "retrieved = [?a] @ ?b # [?c]" by (simp add: retrieved_def)
  have nb: "\<not> no_negative_price (to_p_dict ?b)"
    by (simp add: no_negative_price_def to_p_dict_def shoe_def)
  have ok: "list_all (\<lambda>p. no_negative_price (to_p_dict p)) ([?a] @ [?c])"
    by (simp add: no_negative_price_def to_p_dict_def shoe_def)
  have short: "length (strip (ascii '' a '')) < 2"
    by (simp add: strip_def ascii_def is_space_def)
  have mem: "?a \<in> set retrieved" by (simp add: retrieved_def)
  have oka: "no_negative_price (to_p_dict ?a)"
    by (simp add: no_negative_price_def to_p_dict_def shoe_def)
  have nma: "name ?a = Some (ascii '' a '')" by simp
  note t = sanitize_keeps_order_and_names [of no_negative_price retrieved]
  from t r nb ok have "length (sanitize no_negative_price retrieved) = length [?a] + length [?c]"
    by blast
  moreover from t mem oka nma short have "resp_name (to_p_dict ?a) = name_placeholder"
    by blast
  ultimately show ?thesis using r nb ok short by simp
qed

subsection \<open>The search endpoint\<close>

lemma ai_search_b0: "ai_search b0 (ascii ''red shoes'') None 10 = Inr response0"
proof -
  have p: "determine_path b0 (ascii ''red shoes'') = PStr (ascii ''INTERNAL'')"
    by (simp add: determine_path_def b0_def and_then_def ascii_def)
  have q: "process_query b0 (ascii ''red shoes'') PNone (PStr (ascii ''INTERNAL'')) =
             Inr (PList [PFloat 0], PStr query_reason)"
    by (simp add: process_query_def b0_def and_then_def ascii_def Let_def)
  have s: "search b0 (PList [PFloat 0]) 10 1.2 =
             Inr [shoe 6 (Some [0.3]) True None, shoe 2 (Some [0.4]) True None]"
    using search_db0 by (simp add: b0_def floats_def)
  have v: "model_validate b0 = (\<lambda>d. True)" by (simp add: b0_def)
  from s show ?thesis
    by (simp add: ai_search_def read_image_def p q v and_then_def response0_def)
qed

text \<open>
  C5, as amended. Whenever a search request completes successfully, the response is the
  dict of exactly four keys, in this order: \<^verbatim>\<open>status\<close> with the value
  \<^verbatim>\<open>SUCCESS\<close>, \<^verbatim>\<open>answer\<close> with the reason obtained from the AI service (or the default
  text), \<^verbatim>\<open>products\<close> with the sanitized retrieval result, and \<^verbatim>\<open>search_path\<close> with
  the resolved path. The reason is returned under the key \<^verbatim>\<open>answer\<close>.
\<close>

theorem ai_search_success_shape:
  assumes "ai_search b query image_file limit = Inr resp"
  shows "\<exists>image_b64 vector reason results.
           read_image b image_file = Inr image_b64 \<and>
           process_query b query image_b64 (determine_path b query) = Inr (vector, reason) \<and>
           search b vector limit 1.2 = Inr results \<and>
           resp = [(ascii ''status'', Value (PStr (ascii ''SUCCESS''))),
                   (ascii ''answer'', Value reason),
                   (ascii ''products'', Products (sanitize (model_validate b) results)),
                   (ascii ''search_path'', Value (determine_path b query))] \<and>
           map fst resp = [ascii ''status'', ascii ''answer'', ascii ''products'',
                           ascii ''search_path'']"
  using assms
  by (auto simp: ai_search_def and_then_Inr_iff Let_def split: if_splits sum.splits)

theorem ai_search_success_shape_witness:
  "ai_search b0 (ascii ''red shoes'') None 10 = Inr response0 \<and>
   map fst response0 = [ascii ''status'', ascii ''answer'', ascii ''products'',
                        ascii ''search_path'']"
  using ai_search_success_shape [OF ai_search_b0] ai_search_b0 by blast

text \<open>
  C5 as stated fails: the response to a successful search has no key \<^verbatim>\<open>reason\<close>; the
  reason text is the value of the key \<^verbatim>\<open>answer\<close>.
\<close>

theorem ai_search_reason_key_counterexample:
  "ai_search b0 (ascii ''red shoes'') None 10 = Inr response0 \<and>
   map_of response0 (ascii ''reason'') = None \<and>
   map_of response0 (ascii ''answer'') = Some (Value (PStr query_reason))"
  using ai_search_b0 by (simp add: response0_def ascii_def)


subsection \<open>Price coercion\<close>

lemma decimal_value_snoc: "decimal_value (ds @ [c]) = 10 * decimal_value ds + (c - 0x30)"
  by (simp add: decimal_value_def)

lemma decimal_value_sum:
  "decimal_value ds = (\<Sum>i<length ds. (ds ! i - 0x30) * 10 ^ (length ds - Suc i))"
proof (induction ds rule: rev_induct)
  case Nil
  then show ?case by (simp add: decimal_value_def)
next
  case (snoc c ds)
  have "(\<Sum>i<length ds. ((ds @ [c]) ! i - 0x30) * 10 ^ (length (ds @ [c]) - Suc i)) =
        (\<Sum>i<length ds. 10 * ((ds ! i - 0x30) * 10 ^ (length ds - Suc i)))"
  proof (rule sum.cong)
    fix i assume "i \<in> {..<length ds}"
    then have i: "i < length ds" by simp
    then have "length (ds @ [c]) - Suc i = Suc (length ds - Suc i)" by simp
    with i show "((ds @ [c]) ! i - 0x30) * 10 ^ (length (ds @ [c]) - Suc i) =
                 10 * ((ds ! i - 0x30) * 10 ^ (length ds - Suc i))"
      by (simp add: nth_append)
  qed simp
  also have "\<dots> = 10 * decimal_value ds"
    by (simp add: snoc.IH sum_distrib_left)
  finally show ?case
    by (simp add: decimal_value_snoc)
qed

text \<open>The decimal text of a number: digits only, never empty, and read back to the number.\<close>

lemma digits_of_nat_digits: "list_all is_digit (digits_of_nat n)"
proof (induction n rule: digits_of_nat.induct)
  case (1 n)
  show ?case
  proof (cases "n < 10")
    case True
    then show ?thesis by (simp add: digits_of_nat.simps [of n] is_digit_def)
  next
    case False
    have "n mod 10 < 10" by simp
    then have "is_digit (48 + n mod 10)" unfolding is_digit_def by linarith
    with False 1 show ?thesis by (simp add: digits_of_nat.simps [of n])
  qed
qed

lemma digits_of_nat_not_empty: "digits_of_nat n \<noteq> []"
  by (simp add: digits_of_nat.simps [of n])

lemma decimal_value_digits_of_nat: "decimal_value (digits_of_nat n) = n"
proof (induction n rule: digits_of_nat.induct)
  case (1 n)
  show ?case
  proof (cases "n < 10")
    case True
    then show ?thesis by (simp add: digits_of_nat.simps [of n] decimal_value_def)
  next
    case False
    with 1 have "decimal_value (digits_of_nat (n div 10)) = n div 10" by simp
    with False show ?thesis
      by (simp add: digits_of_nat.simps [of n] decimal_value_snoc)
  qed
qed

lemma digits_of_nat_length:
  assumes "n < 10 ^ k" and "0 < k"
  shows "length (digits_of_nat n) \<le> k"
  using assms
proof (induction n arbitrary: k rule: digits_of_nat.induct)
  case (1 n)
  show ?case
  proof (cases "n < 10")
    case True
    with "1.prems" show ?thesis by (simp add: digits_of_nat.simps [of n])
  next
    case False
    from "1.prems" obtain j where k: "k = Suc j" by (cases k) auto
    from False "1.prems" k have j: "0 < j" by (cases j) auto
    from "1.prems" k have "n < 10 * 10 ^ j" by simp
    then have "n div 10 < 10 ^ j" by (simp add: less_mult_imp_div_less mult.commute)
    with False j have "length (digits_of_nat (n div 10)) \<le> j" by (intro "1.IH") simp_all
    with False k show ?thesis by (simp add: digits_of_nat.simps [of n])
  qed
qed

lemma strip_non_digits_str_of_int:
  "strip_non_digits (str_of_int n) = digits_of_nat (nat \<bar>n\<bar>)"
proof -
  have "filter is_digit (digits_of_nat m) = digits_of_nat m" for m
    using digits_of_nat_digits [of m] by (simp add: list_all_iff)
  moreover have "\<not> is_digit 0x2D" by (simp add: is_digit_def)
  ultimately show ?thesis
    by (simp add: strip_non_digits_def str_of_int_def abs_if)
qed

lemma validate_price_returns: "\<exists>p. validate_price e product_data = Inr p"
  by (cases "price_body e product_data") (simp_all add: validate_price_def)

lemma validate_price_of_text:
  "(case py_int (strip_non_digits raw) of Inr p \<Rightarrow> Inr p | Inl _ \<Rightarrow> Inr 0) =
   (Inr (if strip_non_digits raw = [] \<or> max_str_digits < length (strip_non_digits raw)
         then 0
         else int (decimal_value (strip_non_digits raw))) :: exn + int)"
  by (simp add: py_int_def strip_non_digits_def list_all_iff)

lemma validate_price_of_int:
  assumes "map_of items (ascii ''price'') = Some (PInt n)" and "\<bar>n\<bar> < 10 ^ max_str_digits"
  shows "validate_price e (PDict items) = Inr \<bar>n\<bar>"
proof -
  from assms(2) have "nat \<bar>n\<bar> < 10 ^ max_str_digits"
    by (simp add: nat_less_iff)
  then have len: "length (digits_of_nat (nat \<bar>n\<bar>)) \<le> max_str_digits"
    by (rule digits_of_nat_length) (simp add: max_str_digits_def)
  then have s: "py_str (py_repr e) (PInt n) = Inr (str_of_int n)" by simp
  have "py_int (digits_of_nat (nat \<bar>n\<bar>)) = Inr (int (nat \<bar>n\<bar>))"
    using len by (simp add: py_int_def digits_of_nat_not_empty digits_of_nat_digits
                    decimal_value_digits_of_nat)
  with assms(1) s show ?thesis
    by (simp add: validate_price_def price_body_def and_then_def strip_non_digits_str_of_int)
qed

text \<open>
  C9, as amended. The price block always yields an integer and never raises. For a
  parsed record with a price value, the value is stringified, everything but the ASCII
  digits is removed, and the result is the number the remaining digits spell in decimal
  (the sum of digit times power of ten) when there are between 1 and 4300 of them,
  and 0 when no digit remains or more than 4300 do. An integer price of at most 4300
  digits comes out as its absolute value. An absent price gives 0, and so does any
  failure inside the block.
\<close>

theorem price_coercion_strips_non_digits:
  "(\<exists>p. validate_price e product_data = Inr p) \<and>
   max_str_digits = 4300 \<and>
   (\<forall>fields v raw_price digits.
      product_data = PDict fields \<and> map_of fields (ascii ''price'') = Some v \<and>
      py_str (py_repr e) v = Inr raw_price \<and> digits = filter is_digit raw_price \<longrightarrow>
      validate_price e product_data =
        Inr (if digits = [] \<or> max_str_digits < length digits then 0
             else int (decimal_value digits))) \<and>
   (\<forall>digits. decimal_value digits =
      (\<Sum>i<length digits. (digits ! i - 0x30) * 10 ^ (length digits - Suc i))) \<and>
   (\<forall>fields n.
      product_data = PDict fields \<and> map_of fields (ascii ''price'') = Some (PInt n) \<and>
      \<bar>n\<bar> < 10 ^ max_str_digits \<longrightarrow>
      validate_price e product_data = Inr \<bar>n\<bar>) \<and>
   (\<forall>fields. product_data = PDict fields \<and> map_of fields (ascii ''price'') = None \<longrightarrow>
      validate_price e product_data = Inr 0) \<and>
   (\<forall>err. price_body e product_data = Inl err \<longrightarrow> validate_price e product_data = Inr 0)"
proof -
  have given: "validate_price e product_data =
        Inr (if digits = [] \<or> max_str_digits < length digits then 0
             else int (decimal_value digits))"
    if "product_data = PDict fields \<and> map_of fields (ascii ''price'') = Some v \<and>
        py_str (py_repr e) v = Inr raw_price \<and> digits = filter is_digit raw_price"
    for fields v raw_price digits
  proof -
    from that have "validate_price e product_data =
      (case py_int (strip_non_digits raw_price) of Inr p \<Rightarrow> Inr p | Inl _ \<Rightarrow> Inr 0)"
      by (simp add: validate_price_def price_body_def and_then_def)
    also have "\<dots> = Inr (if strip_non_digits raw_price = [] \<or>
                            max_str_digits < length (strip_non_digits raw_price)
                         then 0
                         else int (decimal_value (strip_non_digits raw_price)))"
      by (rule validate_price_of_text)
    finally show ?thesis using that
      by (simp add: strip_non_digits_def)
  qed
  have whole: "validate_price e product_data = Inr \<bar>n\<bar>"
    if "product_data = PDict fields \<and> map_of fields (ascii ''price'') = Some (PInt n) \<and>
        \<bar>n\<bar> < 10 ^ max_str_digits" for fields n
    using that validate_price_of_int [of fields n e] by blast
  have absent: "validate_price e product_data = Inr 0"
    if "product_data = PDict fields \<and> map_of fields (ascii ''price'') = None" for fields
    using that
    by (simp add: validate_price_def price_body_def and_then_def str_of_int_def
          digits_of_nat.simps strip_non_digits_def is_digit_def py_int_def decimal_value_def
          max_str_digits_def)
  have failure: "validate_price e product_data = Inr 0"
    if "price_body e product_data = Inl err" for err
    using that by (simp add: validate_price_def)
  have cap: "max_str_digits = 4300" by (simp add: max_str_digits_def)
  from validate_price_returns [of e product_data] cap given whole absent failure
    decimal_value_sum
  show ?thesis by blast
qed

text \<open>Further prices: digits before a currency word, no digit at all, a JSON integer.\<close>

lemma price_examples:
  "validate_price e_fail (PDict [(ascii ''price'', PStr (ascii ''9,900'' @ [0xC6D0]))]) = Inr 9900"
  "validate_price e_fail (PDict [(ascii ''price'', PStr (ascii ''ask the seller''))]) = Inr 0"
  "validate_price e_fail (PDict [(ascii ''price'', PInt 10000)]) = Inr 10000"
  "validate_price e_fail (PList []) = Inr 0"
  by (simp_all add: validate_price_def price_body_def and_then_def
        strip_non_digits_def is_digit_def py_int_def decimal_value_def ascii_def
        str_of_int_def digits_of_nat.simps max_str_digits_def)

theorem price_coercion_strips_non_digits_witness:
  "map_of [(ascii ''price'', PStr won_price)] (ascii ''price'') = Some (PStr won_price) \<and>
   py_str (py_repr e_fail) (PStr won_price) = Inr won_price \<and>
   filter is_digit won_price = ascii ''10000'' \<and>
   validate_price e_fail (PDict [(ascii ''price'', PStr won_price)]) = Inr 10000 \<and>
   map_of [(ascii ''price'', PInt (- 2500))] (ascii ''price'') = Some (PInt (- 2500)) \<and>
   validate_price e_fail (PDict [(ascii ''price'', PInt (- 2500))]) = Inr 2500 \<and>
   map_of [(ascii ''name'', PStr (ascii ''Cap''))] (ascii ''price'') = None \<and>
   validate_price e_fail (PDict [(ascii ''name'', PStr (ascii ''Cap''))]) = Inr 0 \<and>
   price_body e_fail (PList []) = Inl AttributeError \<and>
   validate_price e_fail (PList []) = Inr 0"
proof -
  have m: "map_of [(ascii ''price'', PStr won_price)] (ascii ''price'') = Some (PStr won_price)"
    by simp
  have s: "py_str (py_repr e_fail) (PStr won_price) = Inr won_price" by simp
  have d: "ascii ''10000'' = filter is_digit won_price"
    by (simp add: is_digit_def ascii_def won_price_def)
  have v: "decimal_value (ascii ''10000'') = 10000"
    by (simp add: decimal_value_def ascii_def)
  have l: "\<not> (ascii ''10000'' = [] \<or> max_str_digits < length (ascii ''10000''))"
    by (simp add: ascii_def max_str_digits_def)
  have mi: "map_of [(ascii ''price'', PInt (- 2500))] (ascii ''price'') = Some (PInt (- 2500))"
    by simp
  have small: "\<bar>- 2500 :: int\<bar> < 10 ^ max_str_digits"
  proof -
    have "(2500::int) < 10 ^ 4" by simp
    also have "(10::int) ^ 4 \<le> 10 ^ max_str_digits"
      by (rule power_increasing) (simp_all add: max_str_digits_def)
    finally show ?thesis by simp
  qed
  have n: "map_of [(ascii ''name'', PStr (ascii ''Cap''))] (ascii ''price'') = None"
    by (simp add: ascii_def)
  have b: "price_body e_fail (PList []) = Inl AttributeError"
    by (simp add: price_body_def and_then_def)
  note t1 = price_coercion_strips_non_digits
              [of e_fail "PDict [(ascii ''price'', PStr won_price)]"]
  have "validate_price e_fail (PDict [(ascii ''price'', PStr won_price)]) =
        Inr (if ascii ''10000'' = [] \<or> max_str_digits < length (ascii ''10000'') then 0
             else int (decimal_value (ascii ''10000'')))"
    by (rule t1 [THEN conjunct2, THEN conjunct2, THEN conjunct1, rule_format,
                 of "[(ascii ''price'', PStr won_price)]" "PStr won_price" won_price])
       (intro conjI refl m s d)
  with l v have w: "validate_price e_fail (PDict [(ascii ''price'', PStr won_price)]) = Inr 10000"
    by simp
  note t2 = price_coercion_strips_non_digits
              [of e_fail "PDict [(ascii ''price'', PInt (- 2500))]"]
  have "validate_price e_fail (PDict [(ascii ''price'', PInt (- 2500))]) = Inr \<bar>- 2500\<bar>"
    by (rule t2 [THEN conjunct2, THEN conjunct2, THEN conjunct2, THEN conjunct2,
                 THEN conjunct1, rule_format, of "[(ascii ''price'', PInt (- 2500))]"])
       (intro conjI refl mi small)
  then have i: "validate_price e_fail (PDict [(ascii ''price'', PInt (- 2500))]) = Inr 2500"
    by simp
  note t3 = price_coercion_strips_non_digits
              [of e_fail "PDict [(ascii ''name'', PStr (ascii ''Cap''))]"]
  have a: "validate_price e_fail (PDict [(ascii ''name'', PStr (ascii ''Cap''))]) = Inr 0"
    by (rule t3 [THEN conjunct2, THEN conjunct2, THEN conjunct2, THEN conjunct2,
                 THEN conjunct2, THEN conjunct1, rule_format,
                 of "[(ascii ''name'', PStr (ascii ''Cap''))]"])
       (intro conjI refl n)
  note t4 = price_coercion_strips_non_digits [of e_fail "PList []"]
  have f: "validate_price e_fail (PList []) = Inr 0"
    by (rule t4 [THEN conjunct2, THEN conjunct2, THEN conjunct2, THEN conjunct2,
                 THEN conjunct2, THEN conjunct2, rule_format, OF b])
  from m s d [symmetric] w mi i n a b f show ?thesis by (intro conjI)
qed

text \<open>
  C9 as stated fails. A price text of 4301 digits followed by the currency word keeps
  its 4301 digits, which spell a number that is not 0, but \<^verbatim>\<open>int\<close> refuses a text of
  more than 4300 digits and the price comes out as 0.
\<close>

theorem long_price_counterexample:
  "filter is_digit long_price = replicate 4301 0x31 \<and>
   length (filter is_digit long_price) = 4301 \<and>
   decimal_value (filter is_digit long_price) \<noteq> 0 \<and>
   validate_price e_fail (PDict [(ascii ''price'', PStr long_price)]) = Inr 0"
proof -
  have d: "filter is_digit long_price = replicate 4301 0x31"
    by (simp add: long_price_def is_digit_def)
  have "decimal_value (replicate (Suc n) 0x31) \<noteq> 0" for n
  proof -
    have "replicate (Suc n) (0x31::nat) = replicate n 0x31 @ [0x31]"
      by (simp add: replicate_append_same)
    then have "decimal_value (replicate (Suc n) 0x31) =
               10 * decimal_value (replicate n 0x31) + (0x31 - 0x30)"
      by (simp only: decimal_value_snoc)
    then show ?thesis by simp
  qed
  moreover have "(4301::nat) = Suc 4300" by simp
  ultimately have nz: "decimal_value (replicate 4301 0x31) \<noteq> 0" by metis
  have "py_int (replicate 4301 0x31) = Inl ValueError"
    by (simp add: py_int_def max_str_digits_def)
  with d have "validate_price e_fail (PDict [(ascii ''price'', PStr long_price)]) = Inr 0"
    by (simp add: validate_price_def price_body_def and_then_def strip_non_digits_def)
  with d nz show ?thesis by simp
qed


end
